theory Spec2Isabelle
  imports Complex_Main "HOL-Library.Log_Nat"
begin

section \<open>JavaScript values, exceptions and side effects\<close>

text \<open>
  The payment flow is JavaScript: request bodies, gateway replies and log records are
  JSON-like values, every property read on \<open>undefined\<close> or \<open>null\<close> throws a TypeError, and
  the handlers communicate with the outside world through the logger and through axios.
  A JavaScript string is represented by its UTF-8 encoding, a \<open>char list\<close> of bytes (a
  string with an unpaired surrogate has none and is outside the model); its \<open>length\<close>,
  counted in UTF-16 code units, is \<open>js_length\<close>. A number is the rational it denotes;
  where the code multiplies, the product is rounded to binary64.
\<close>

datatype jsval =
    JUndefined
  | JNull
  | JBool bool
  | JNum rat
  | JStr string
  | JArr "jsval list"
  | JObj "(string \<times> jsval) list"

text \<open>\<open>!v\<close> is \<open>\<not> truthy v\<close>.\<close>

fun truthy :: "jsval \<Rightarrow> bool" where
  "truthy JUndefined = False"
| "truthy JNull = False"
| "truthy (JBool b) = b"
| "truthy (JNum r) = (r \<noteq> 0)"
| "truthy (JStr s) = (s \<noteq> [])"
| "truthy (JArr xs) = True"
| "truthy (JObj kvs) = True"

text \<open>\<open>typeof v === 'string'\<close>.\<close>

fun is_string :: "jsval \<Rightarrow> bool" where
  "is_string (JStr s) = True"
| "is_string v = False"

text \<open>
  \<open>s.length\<close>: the UTF-16 code units of the string, read off its UTF-8 bytes. A
  continuation byte adds none, the lead byte of a four-byte sequence stands for a
  surrogate pair, every other byte starts a character of one unit.
\<close>

definition code_units :: "char \<Rightarrow> nat" where
  "code_units c =
     (if 128 \<le> (of_char c :: nat) \<and> (of_char c :: nat) < 192 then 0
      else if 240 \<le> (of_char c :: nat) then 2
      else 1)"

definition js_length :: "string \<Rightarrow> nat" where
  "js_length s = sum_list (map code_units s)"

text \<open>\<open>a || b\<close>.\<close>

definition js_or :: "jsval \<Rightarrow> jsval \<Rightarrow> jsval" where
  "js_or a b = (if truthy a then a else b)"

datatype exn = Error string | TypeError string | SyntaxError string

text \<open>\<open>error.message\<close>.\<close>

fun message :: "exn \<Rightarrow> string" where
  "message (Error m) = m"
| "message (TypeError m) = m"
| "message (SyntaxError m) = m"

definition quoted :: "string \<Rightarrow> string" where
  "quoted k = CHR 0x27 # k @ [CHR 0x27]"

text \<open>
  \<open>v.k\<close> for the property names the payment flow reads (none of them is a built-in
  property of strings, numbers, booleans or arrays, so only an object can hold one).
  The first binding of a key in the association list is the object's value.
\<close>

fun js_prop :: "jsval \<Rightarrow> string \<Rightarrow> exn + jsval" where
  "js_prop JUndefined k =
     Inl (TypeError (''Cannot read properties of undefined (reading '' @ quoted k @ '')''))"
| "js_prop JNull k =
     Inl (TypeError (''Cannot read properties of null (reading '' @ quoted k @ '')''))"
| "js_prop (JObj kvs) k = Inr (case map_of kvs k of None \<Rightarrow> JUndefined | Some v \<Rightarrow> v)"
| "js_prop v k = Inr JUndefined"

datatype level = Info | Warn | Err

text \<open>
  What a handler does besides answering: a logger call (level, message, metadata) or an
  axios call to the gateway (URL, JSON payload where there is one, Authorization header).
\<close>

datatype effect =
    Log level string jsval
  | HttpPost string jsval string
  | HttpGet string string

fun is_log :: "effect \<Rightarrow> bool" where
  "is_log (Log l m meta) = True"
| "is_log e = False"

fun is_network :: "effect \<Rightarrow> bool" where
  "is_network (Log l m meta) = False"
| "is_network e = True"

text \<open>
  A computation either returns or throws, and leaves the effects it performed, in order.
\<close>

type_synonym 'a comp = "(exn + 'a) \<times> effect list"

definition ret :: "'a \<Rightarrow> 'a comp" where
  "ret x = (Inr x, [])"

definition throw :: "exn \<Rightarrow> 'a comp" where
  "throw e = (Inl e, [])"

definition seq :: "'a comp \<Rightarrow> ('a \<Rightarrow> 'b comp) \<Rightarrow> 'b comp" where
  "seq m f =
     (case m of
        (Inl e, w) \<Rightarrow> (Inl e, w)
      | (Inr x, w) \<Rightarrow> (case f x of (r, w') \<Rightarrow> (r, w @ w')))"

definition try_catch :: "'a comp \<Rightarrow> (exn \<Rightarrow> 'a comp) \<Rightarrow> 'a comp" where
  "try_catch m h =
     (case m of
        (Inr x, w) \<Rightarrow> (Inr x, w)
      | (Inl e, w) \<Rightarrow> (case h e of (r, w') \<Rightarrow> (r, w @ w')))"

definition logger :: "level \<Rightarrow> string \<Rightarrow> jsval \<Rightarrow> unit comp" where
  "logger l m meta = (Inr (), [Log l m meta])"

definition get :: "jsval \<Rightarrow> string \<Rightarrow> jsval comp" where
  "get v k = (js_prop v k, [])"

section \<open>Configuration and platform\<close>

text \<open>
  What the code takes from its process and its libraries: the environment variables
  (validated as required strings at start-up), the clock, Node's crypto, buffer and JSON
  built-ins, JavaScript's coercions and \<open>substring(0, n)\<close>, and the gateway's answers to
  axios (the parsed \<open>response.data\<close>, or the error axios throws on a timeout or a
  non-2xx status). \<open>bufferToString\<close> is \<open>chunk.toString()\<close>: it takes the bytes of a chunk
  and gives the string they decode to, which is those same bytes when the chunk is
  well-formed UTF-8 and holds replacement characters where it is not.
\<close>

record env =
  secretKey :: string
  clientUrl :: string
  development :: bool
  nowISO :: string
  hmacSha512Hex :: "string \<Rightarrow> string \<Rightarrow> string"
  bufferToString :: "string \<Rightarrow> string"
  substring :: "string \<Rightarrow> nat \<Rightarrow> string"
  jsonParse :: "string \<Rightarrow> exn + jsval"
  jsonStringify :: "jsval \<Rightarrow> jsval"
  toString :: "jsval \<Rightarrow> string"
  divide :: "jsval \<Rightarrow> rat \<Rightarrow> jsval"
  encodeURIComponent :: "string \<Rightarrow> string"
  axiosPost :: "string \<Rightarrow> jsval \<Rightarrow> exn + jsval"
  axiosGet :: "string \<Rightarrow> exn + jsval"

text \<open>\<open>paystackConfig\<close>: amounts in kobo.\<close>

definition baseUrl :: string where
  "baseUrl = ''https://api.paystack.co''"

definition maxAmount :: int where
  "maxAmount = 50000000"

definition minAmount :: int where
  "minAmount = 10000"

text \<open>
  \<open>name.substring(0, n)\<close>: a TypeError when the value is not a string.
\<close>

fun substring0 :: "env \<Rightarrow> string \<Rightarrow> jsval \<Rightarrow> nat \<Rightarrow> jsval comp" where
  "substring0 E name (JStr s) n = ret (JStr (substring E s n))"
| "substring0 E name v n = throw (TypeError (name @ ''.substring is not a function''))"

section \<open>PaystackService\<close>

text \<open>How Node names a value of the wrong type in an error message.\<close>

fun received :: "env \<Rightarrow> jsval \<Rightarrow> string" where
  "received E JUndefined = ''undefined''"
| "received E JNull = ''null''"
| "received E (JBool b) = ''type boolean ('' @ (if b then ''true'' else ''false'') @ '')''"
| "received E (JNum r) = ''type number ('' @ toString E (JNum r) @ '')''"
| "received E (JStr s) = ''type string ('' @ quoted s @ '')''"
| "received E (JArr xs) = ''an instance of Array''"
| "received E (JObj kvs) = ''an instance of Object''"

text \<open>
  \<open>crypto.createHmac('sha512', this.secretKey).update(body).digest('hex')\<close>: the key and
  the body are hashed as their UTF-8 bytes, and \<open>update\<close> throws a TypeError when its
  argument is not a string (or a buffer, which no caller passes).
\<close>

fun hmacHex :: "env \<Rightarrow> jsval \<Rightarrow> string comp" where
  "hmacHex E (JStr b) = ret (hmacSha512Hex E (secretKey E) b)"
| "hmacHex E v =
     throw (TypeError (''The '' @ [CHR 0x22] @ ''data'' @ [CHR 0x22]
       @ '' argument must be of type string or an instance of Buffer, TypedArray, or DataView. Received ''
       @ received E v))"

definition verifyWebhookSignature :: "env \<Rightarrow> jsval \<Rightarrow> jsval \<Rightarrow> bool comp" where
  "verifyWebhookSignature E signature body =
     try_catch
       (if \<not> truthy signature \<or> \<not> truthy body then
          seq (logger Warn ''Missing signature or body in webhook verification'' JUndefined)
            (\<lambda>_. ret False)
        else
          seq (hmacHex E body) (\<lambda>hash.
          let isValid = (JStr hash = signature) in
          seq (if \<not> isValid then
                 seq (substring0 E ''signature'' signature 10) (\<lambda>expected.
                 seq (substring0 E ''hash'' (JStr hash) 10) (\<lambda>calculated.
                 logger Warn ''Invalid webhook signature''
                   (JObj [(''expectedSignature'', expected),
                          (''calculatedSignature'', calculated)])))
               else ret ()) (\<lambda>_.
          ret isValid)))
       (\<lambda>error.
          seq (logger Err ''Webhook signature verification error''
                 (JObj [(''error'', JStr (message error))]))
            (\<lambda>_. ret False))"

text \<open>The gateway calls: the effect is recorded, the answer is the environment's.\<close>

definition bearer :: "env \<Rightarrow> string" where
  "bearer E = ''Bearer '' @ secretKey E"

definition post :: "env \<Rightarrow> string \<Rightarrow> jsval \<Rightarrow> jsval comp" where
  "post E url payload = (axiosPost E url payload, [HttpPost url payload (bearer E)])"

definition fetch :: "env \<Rightarrow> string \<Rightarrow> jsval comp" where
  "fetch E url = (axiosGet E url, [HttpGet url (bearer E)])"

text \<open>The naira sign, U+20A6, in UTF-8.\<close>

definition naira :: string where
  "naira = [CHR 0xE2, CHR 0x82, CHR 0xA6]"

text \<open>\<open>new Error(m || fallback)\<close>: the message is the string of \<open>m\<close>.\<close>

definition error_or :: "env \<Rightarrow> jsval \<Rightarrow> string \<Rightarrow> exn" where
  "error_or E m fallback = Error (if truthy m then toString E m else fallback)"

text \<open>A parameter with the default \<open>= {}\<close>: the default replaces \<open>undefined\<close> only.\<close>

definition or_empty_object :: "jsval \<Rightarrow> jsval" where
  "or_empty_object v = (if v = JUndefined then JObj [] else v)"

text \<open>
  \<open>initializeTransaction(email, amount, metadata = {})\<close>, amount in kobo. The two bounds
  print as \<open>minAmount / 100 = 100\<close> and \<open>maxAmount / 100 = 500000\<close>.
\<close>

definition initializeTransaction :: "env \<Rightarrow> jsval \<Rightarrow> int \<Rightarrow> jsval \<Rightarrow> jsval comp" where
  "initializeTransaction E email amount metadata0 =
     (let metadata = or_empty_object metadata0 in
     try_catch
       (if amount < minAmount then
          throw (Error (''Amount must be at least '' @ naira @ ''100''))
        else if amount > maxAmount then
          throw (Error (''Amount cannot exceed '' @ naira @ ''500000''))
        else
          seq (post E (baseUrl @ ''/transaction/initialize'')
                 (JObj [(''email'', email),
                        (''amount'', JNum (of_int amount)),
                        (''metadata'', metadata),
                        (''callback_url'', JStr (clientUrl E @ ''/payment/callback''))]))
            (\<lambda>data.
          seq (get data ''status'') (\<lambda>ok.
          if \<not> truthy ok then
            seq (get data ''message'') (\<lambda>m.
            throw (error_or E m ''Failed to initialize transaction''))
          else
            seq (get data ''data'') (\<lambda>d.
            seq (get d ''reference'') (\<lambda>reference.
            seq (logger Info ''Paystack transaction initialized''
                   (JObj [(''reference'', reference),
                          (''amount'', JNum (of_int amount)),
                          (''email'', email)])) (\<lambda>_.
            seq (get d ''authorization_url'') (\<lambda>authorization_url.
            seq (get d ''access_code'') (\<lambda>access_code.
            ret (JObj [(''success'', JBool True),
                       (''authorizationUrl'', authorization_url),
                       (''accessCode'', access_code),
                       (''reference'', reference)])))))))))
       (\<lambda>error.
          seq (logger Err ''Paystack initialization error''
                 (JObj [(''error'', JStr (message error)),
                        (''email'', email),
                        (''amount'', JNum (of_int amount))]))
            (\<lambda>_. throw error)))"

text \<open>\<open>reference.length < 5\<close>, read only after \<open>typeof reference === 'string'\<close>.\<close>

fun str_length :: "jsval \<Rightarrow> nat" where
  "str_length (JStr s) = js_length s"
| "str_length v = 0"

fun str_of :: "jsval \<Rightarrow> string" where
  "str_of (JStr s) = s"
| "str_of v = []"

definition verifyTransaction :: "env \<Rightarrow> jsval \<Rightarrow> jsval comp" where
  "verifyTransaction E reference =
     try_catch
       (if \<not> truthy reference \<or> \<not> is_string reference \<or> str_length reference < 5 then
          throw (Error ''Invalid transaction reference'')
        else
          seq (fetch E (baseUrl @ ''/transaction/verify/''
                          @ encodeURIComponent E (str_of reference))) (\<lambda>data.
          seq (get data ''status'') (\<lambda>ok.
          if \<not> truthy ok then
            seq (get data ''message'') (\<lambda>m.
            throw (error_or E m ''Transaction verification failed''))
          else
            seq (get data ''data'') (\<lambda>transaction.
            seq (get transaction ''status'') (\<lambda>tstatus.
            seq (get transaction ''amount'') (\<lambda>tamount.
            seq (logger Info ''Paystack transaction verified''
                   (JObj [(''reference'', reference),
                          (''status'', tstatus),
                          (''amount'', tamount)])) (\<lambda>_.
            seq (get transaction ''customer'') (\<lambda>customer.
            seq (get customer ''email'') (\<lambda>email.
            seq (get customer ''customer_code'') (\<lambda>customer_code.
            seq (get transaction ''metadata'') (\<lambda>metadata.
            seq (get transaction ''paid_at'') (\<lambda>paid_at.
            seq (get transaction ''authorization'') (\<lambda>authorization.
            seq (get authorization ''authorization_code'') (\<lambda>authorization_code.
            ret (JObj [(''success'', JBool True),
                       (''status'', tstatus),
                       (''amount'', tamount),
                       (''email'', email),
                       (''customerId'', customer_code),
                       (''metadata'', js_or metadata (JObj [])),
                       (''paidAt'', paid_at),
                       (''authorizationCode'', authorization_code)])))))))))))))))
       (\<lambda>error.
          seq (logger Err ''Paystack verification error''
                 (JObj [(''error'', JStr (message error)),
                        (''reference'', reference)]))
            (\<lambda>_. throw error))"

definition parseWebhookEvent :: "jsval \<Rightarrow> jsval comp" where
  "parseWebhookEvent event =
     (if \<not> truthy event then throw (Error ''Invalid webhook event'')
      else
        seq (get event ''event'') (\<lambda>kind.
        if \<not> truthy kind then throw (Error ''Invalid webhook event'')
        else
          seq (get event ''data'') (\<lambda>d.
          seq (get d ''reference'') (\<lambda>reference.
          seq (get d ''status'') (\<lambda>dstatus.
          seq (get d ''amount'') (\<lambda>amount.
          seq (get d ''customer'') (\<lambda>customer.
          seq (get d ''metadata'') (\<lambda>metadata.
          ret (JObj [(''event'', kind),
                     (''data'', d),
                     (''reference'', reference),
                     (''status'', dstatus),
                     (''amount'', amount),
                     (''customer'', customer),
                     (''metadata'', js_or metadata (JObj []))])))))))))"

section \<open>Payment controller\<close>

text \<open>\<open>res.status(code).json(body)\<close>.\<close>

record response =
  res_status :: nat
  res_body :: jsval

definition respond :: "nat \<Rightarrow> jsval \<Rightarrow> response comp" where
  "respond code b = ret \<lparr>res_status = code, res_body = b\<rparr>"

text \<open>
  \<open>process.env.NODE_ENV === 'development' ? error.message : undefined\<close>.
\<close>

definition dev_error :: "env \<Rightarrow> exn \<Rightarrow> jsval" where
  "dev_error E error = (if development E then JStr (message error) else JUndefined)"

text \<open>
  The request of \<open>initializePayment\<close> as the route's validator hands it over:
  \<open>req.body.orderId\<close>, the optional number \<open>req.body.amount\<close> (naira, the value of the
  double) and \<open>req.user.id\<close>.
\<close>

record initialize_request =
  body_orderId :: jsval
  body_amount :: "rat option"
  user_id :: jsval

text \<open>\<open>Math.round\<close>: to the nearest integer, halves upwards.\<close>

definition math_round :: "rat \<Rightarrow> int" where
  "math_round x = \<lfloor>x + 1 / 2\<rfloor>"

text \<open>
  The binary64 value of a real result: the nearest number with 53 significant bits, a tie
  going to the even one, with the fixed spacing \<open>2 ^ -1074\<close> below \<open>2 ^ -1022\<close>. (Nothing
  here overflows: the route's validator admits no amount above \<open>2 ^ 53\<close>.) \<open>e\<close> is the
  binary exponent of \<open>\<bar>x\<bar>\<close>, that is \<open>2 ^ e \<le> \<bar>x\<bar> < 2 ^ (e + 1)\<close>, and \<open>u\<close> the spacing of the
  binary64 numbers there.
\<close>

definition pow2 :: "int \<Rightarrow> rat" where
  "pow2 e = (if 0 \<le> e then 2 ^ nat e else 1 / 2 ^ nat (- e))"

definition round_half_even :: "rat \<Rightarrow> int" where
  "round_half_even y =
     (let f = \<lfloor>y\<rfloor>; r = y - of_int f in
      if r < 1 / 2 then f else if 1 / 2 < r then f + 1 else if even f then f else f + 1)"

definition binary64 :: "rat \<Rightarrow> rat" where
  "binary64 x =
     (if x = 0 then 0
      else
        let a = \<bar>x\<bar>;
            d = bitlen (fst (quotient_of a)) - bitlen (snd (quotient_of a));
            e = (if pow2 d \<le> a then d else d - 1);
            u = pow2 (max e (- 1022) - 52)
        in sgn x * of_int (round_half_even (a / u)) * u)"

text \<open>\<open>amount || 10000\<close>: an absent amount and the amount 0 are falsy.\<close>

definition orderTotal :: "rat option \<Rightarrow> rat" where
  "orderTotal amount =
     (case amount of None \<Rightarrow> 10000 | Some a \<Rightarrow> if a = 0 then 10000 else a)"

text \<open>\<open>Math.round(orderTotal * 100)\<close>, the product being a binary64 product.\<close>

definition amountInKobo :: "rat option \<Rightarrow> int" where
  "amountInKobo amount = math_round (binary64 (orderTotal amount * 100))"

definition initializePayment :: "env \<Rightarrow> initialize_request \<Rightarrow> response comp" where
  "initializePayment E req =
     try_catch
       (let orderId = body_orderId req; amount = body_amount req; userId = user_id req in
        if \<not> truthy orderId \<or> \<not> is_string orderId then
          respond 400
            (JObj [(''success'', JBool False),
                   (''message'', JStr ''Order ID is required and must be a string'')])
        else if amountInKobo amount < 10000 then
          respond 400
            (JObj [(''success'', JBool False),
                   (''message'', JStr (''Order amount must be at least '' @ naira @ ''100''))])
        else if amountInKobo amount > 50000000 then
          respond 400
            (JObj [(''success'', JBool False),
                   (''message'', JStr (''Order amount cannot exceed '' @ naira @ ''500,000''))])
        else
          let metadata = JObj [(''orderId'', orderId),
                               (''userId'', userId),
                               (''orderDate'', JStr (nowISO E)),
                               (''customSpecs'', JObj [])];
              userEmail = JStr ''customer@test.com'' in
          seq (initializeTransaction E userEmail (amountInKobo amount) metadata)
            (\<lambda>paystackResponse.
          seq (get paystackResponse ''reference'') (\<lambda>reference.
          seq (logger Info ''Payment initialized successfully''
                 (JObj [(''orderId'', orderId),
                        (''reference'', reference),
                        (''amount'', JNum (orderTotal amount))])) (\<lambda>_.
          seq (get paystackResponse ''authorizationUrl'') (\<lambda>authorizationUrl.
          seq (get paystackResponse ''accessCode'') (\<lambda>accessCode.
          respond 200
            (JObj [(''success'', JBool True),
                   (''message'', JStr ''Payment initialization successful''),
                   (''data'', JObj [(''authorizationUrl'', authorizationUrl),
                                    (''accessCode'', accessCode),
                                    (''reference'', reference),
                                    (''amount'', JNum (orderTotal amount)),
                                    (''amountInKobo'',
                                       JNum (of_int (amountInKobo amount)))])])))))))
       (\<lambda>error.
          seq (logger Err ''Payment initialization error''
                 (JObj [(''error'', JStr (message error)),
                        (''orderId'', body_orderId req)])) (\<lambda>_.
          respond 500
            (JObj [(''success'', JBool False),
                   (''message'', JStr ''Failed to initialize payment''),
                   (''error'', dev_error E error)])))"

text \<open>The request of \<open>verifyPayment\<close>: \<open>req.params.reference\<close> and \<open>req.user.id\<close>.\<close>

record verify_request =
  param_reference :: jsval
  verify_user_id :: jsval

definition verifyPayment :: "env \<Rightarrow> verify_request \<Rightarrow> response comp" where
  "verifyPayment E req =
     try_catch
       (let reference = param_reference req; userId = verify_user_id req in
        if \<not> truthy reference then
          respond 400
            (JObj [(''success'', JBool False),
                   (''message'', JStr ''Transaction reference is required'')])
        else
          seq (verifyTransaction E reference) (\<lambda>verification.
          seq (get verification ''status'') (\<lambda>vstatus.
          if vstatus \<noteq> JStr ''success'' then
            respond 400
              (JObj [(''success'', JBool False),
                     (''message'', JStr ''Payment verification failed''),
                     (''status'', vstatus)])
          else
            seq (logger Info ''Payment verified successfully''
                   (JObj [(''reference'', reference), (''userId'', userId)])) (\<lambda>_.
            seq (get verification ''amount'') (\<lambda>vamount.
            seq (get verification ''paidAt'') (\<lambda>paidAt.
            respond 200
              (JObj [(''success'', JBool True),
                     (''message'', JStr ''Payment verified successfully''),
                     (''data'', JObj [(''status'', vstatus),
                                      (''amount'', divide E vamount 100),
                                      (''depositPaid'', JBool True),
                                      (''paidAt'', paidAt)])])))))))
       (\<lambda>error.
          seq (logger Err ''Payment verification error''
                 (JObj [(''error'', JStr (message error)),
                        (''reference'', param_reference req)])) (\<lambda>_.
          respond 500
            (JObj [(''success'', JBool False),
                   (''message'', JStr ''Payment verification failed''),
                   (''error'', dev_error E error)])))"

subsection \<open>Webhook events\<close>

text \<open>
  The four private handlers: each is one \<open>try\<close> block that logs, with a \<open>catch\<close> that logs
  the error; the Order update is a comment in the source, so nothing else happens.
\<close>

definition handleChargeSuccess :: "jsval \<Rightarrow> unit comp" where
  "handleChargeSuccess event =
     try_catch
       (seq (get event ''reference'') (\<lambda>reference.
        seq (get event ''data'') (\<lambda>d.
        seq (get d ''amount'') (\<lambda>amount.
        logger Info ''Processing successful charge''
          (JObj [(''reference'', reference), (''amount'', amount)])))))
       (\<lambda>error.
          seq (get event ''reference'') (\<lambda>reference.
          logger Err ''Error handling charge success''
            (JObj [(''error'', JStr (message error)), (''reference'', reference)])))"

definition handleChargeFailed :: "jsval \<Rightarrow> unit comp" where
  "handleChargeFailed event =
     try_catch
       (seq (get event ''reference'') (\<lambda>reference.
        logger Warn ''Processing failed charge'' (JObj [(''reference'', reference)])))
       (\<lambda>error.
          seq (get event ''reference'') (\<lambda>reference.
          logger Err ''Error handling charge failed''
            (JObj [(''error'', JStr (message error)), (''reference'', reference)])))"

definition handleTransferSuccess :: "jsval \<Rightarrow> unit comp" where
  "handleTransferSuccess event =
     try_catch
       (seq (get event ''data'') (\<lambda>d.
        seq (get d ''id'') (\<lambda>transferId.
        logger Info ''Transfer successful'' (JObj [(''transferId'', transferId)]))))
       (\<lambda>error.
          logger Err ''Error handling transfer success''
            (JObj [(''error'', JStr (message error))]))"

definition handleTransferFailed :: "jsval \<Rightarrow> unit comp" where
  "handleTransferFailed event =
     try_catch
       (seq (get event ''data'') (\<lambda>d.
        seq (get d ''id'') (\<lambda>transferId.
        seq (get d ''reason'') (\<lambda>reason.
        logger Warn ''Transfer failed''
          (JObj [(''transferId'', transferId), (''reason'', reason)])))))
       (\<lambda>error.
          logger Err ''Error handling transfer failed''
            (JObj [(''error'', JStr (message error))]))"

text \<open>
  The request as \<open>handleWebhook\<close> reads it: the header \<open>x-paystack-signature\<close> (a string
  when present: Node joins repeated headers), \<open>req.rawBody\<close> and \<open>req.body\<close>.
\<close>

record webhook_request =
  signature_header :: "string option"
  rawBody :: jsval
  parsed_body :: jsval

text \<open>\<open>req.headers['x-paystack-signature']\<close>.\<close>

definition header_value :: "string option \<Rightarrow> jsval" where
  "header_value h = (case h of None \<Rightarrow> JUndefined | Some s \<Rightarrow> JStr s)"

text \<open>
  The text whose HMAC is compared with the header:
  \<open>req.rawBody || JSON.stringify(req.body)\<close>.
\<close>

definition signedText :: "env \<Rightarrow> webhook_request \<Rightarrow> jsval" where
  "signedText E req = js_or (rawBody req) (jsonStringify E (parsed_body req))"

text \<open>\<open>switch (event.event)\<close>.\<close>

definition dispatch :: "jsval \<Rightarrow> jsval \<Rightarrow> unit comp" where
  "dispatch kind event =
     (if kind = JStr ''charge.success'' then handleChargeSuccess event
      else if kind = JStr ''charge.failed'' then handleChargeFailed event
      else if kind = JStr ''transfer.success'' then handleTransferSuccess event
      else if kind = JStr ''transfer.failed'' then handleTransferFailed event
      else logger Info ''Unhandled webhook event'' (JObj [(''event'', kind)]))"

definition handleWebhook :: "env \<Rightarrow> webhook_request \<Rightarrow> response comp" where
  "handleWebhook E req =
     try_catch
       (let signature = header_value (signature_header req) in
        if \<not> truthy signature then
          seq (logger Warn ''Webhook received without signature'' JUndefined) (\<lambda>_.
          respond 400
            (JObj [(''success'', JBool False),
                   (''message'', JStr ''Missing signature header'')]))
        else
          seq (verifyWebhookSignature E signature (signedText E req)) (\<lambda>isValidSignature.
          if \<not> isValidSignature then
            seq (substring0 E ''signature'' signature 10) (\<lambda>prefix.
            seq (logger Warn ''Webhook signature verification failed''
                   (JObj [(''signature'', prefix)])) (\<lambda>_.
            respond 401
              (JObj [(''success'', JBool False),
                     (''message'', JStr ''Invalid webhook signature'')])))
          else
            seq (parseWebhookEvent (parsed_body req)) (\<lambda>event.
            seq (get event ''event'') (\<lambda>kind.
            seq (get event ''reference'') (\<lambda>reference.
            seq (logger Info ''Valid webhook received''
                   (JObj [(''event'', kind), (''reference'', reference)])) (\<lambda>_.
            seq (dispatch kind event) (\<lambda>_.
            respond 200
              (JObj [(''success'', JBool True),
                     (''message'', JStr ''Webhook processed'')]))))))))
       (\<lambda>error.
          seq (logger Err ''Webhook processing error''
                 (JObj [(''error'', JStr (message error)),
                        (''body'', parsed_body req)])) (\<lambda>_.
          respond 200
            (JObj [(''success'', JBool False),
                   (''message'', JStr ''Webhook processing error'')])))"

section \<open>Payment routes\<close>

text \<open>A middleware either answers the request or calls \<open>next()\<close> with the request.\<close>

datatype 'a step = Next 'a | Answer response

definition validation_failed :: "string \<Rightarrow> response" where
  "validation_failed m =
     \<lparr>res_status = 400,
      res_body = JObj [(''success'', JBool False),
                       (''message'', JStr ''Validation failed''),
                       (''errors'', JArr [JObj [(''field'', JStr ''reference''),
                                                (''message'', JStr m)]])]\<rparr>"

text \<open>
  \<open>validateVerifyPayment\<close>: the URL parameter is a string, and the schema is
  \<open>Joi.string().min(5).max(255).required()\<close>, which compares the string's \<open>length\<close>,
  with the route's messages (for \<open>max\<close>, Joi's own).
\<close>

definition validateVerifyPayment :: "string \<Rightarrow> string step" where
  "validateVerifyPayment reference =
     (if reference = [] then Answer (validation_failed ''Transaction reference is required'')
      else if js_length reference < 5 then
        Answer (validation_failed ''Transaction reference format is invalid'')
      else if js_length reference > 255 then
        Answer (validation_failed
          (CHR 0x22 # ''reference'' @ [CHR 0x22]
             @ '' length must be less than or equal to 255 characters long''))
      else Next reference)"

text \<open>\<open>POST /verify/:reference\<close>: the validator, then the controller.\<close>

definition verifyRoute :: "env \<Rightarrow> string \<Rightarrow> jsval \<Rightarrow> response comp" where
  "verifyRoute E reference userId =
     (case validateVerifyPayment reference of
        Answer r \<Rightarrow> ret r
      | Next reference' \<Rightarrow>
          verifyPayment E \<lparr>param_reference = JStr reference', verify_user_id = userId\<rparr>)"

text \<open>
  A webhook delivery as \<open>captureRawBody\<close> meets it: the \<open>content-type\<close> header, the
  signature header, the body stream, and \<open>req.body\<close> as the earlier middleware left it.
  The stream is \<open>Unread cs\<close> when nothing has read the body yet: the \<open>data\<close> listener then
  receives the chunks \<open>cs\<close>, the bytes of the body as they came over the wire, and the
  \<open>end\<close> listener is called after them. It is \<open>AlreadyRead\<close> when the body was read to its
  end before the route ran, as a body parser mounted ahead of the router does with the
  bodies it parses: then neither listener is ever called.
\<close>

datatype stream_state = Unread "string list" | AlreadyRead

record delivery =
  content_type :: "string option"
  paystack_signature :: "string option"
  body_stream :: stream_state
  earlier_body :: jsval

text \<open>\<open>s.includes(t)\<close>.\<close>

fun starts_with :: "string \<Rightarrow> string \<Rightarrow> bool" where
  "starts_with s [] = True"
| "starts_with [] (c # t) = False"
| "starts_with (a # s) (c # t) = (a = c \<and> starts_with s t)"

fun js_includes :: "string \<Rightarrow> string \<Rightarrow> bool" where
  "js_includes [] t = starts_with [] t"
| "js_includes (a # s) t = (starts_with (a # s) t \<or> js_includes s t)"

text \<open>\<open>req.headers['content-type']?.includes('application/json')\<close>.\<close>

definition is_json :: "string option \<Rightarrow> bool" where
  "is_json ct = (case ct of None \<Rightarrow> False | Some s \<Rightarrow> js_includes s ''application/json'')"

text \<open>
  \<open>captureRawBody\<close>: \<open>req.rawBody\<close> starts empty and each chunk adds \<open>chunk.toString()\<close>;
  at \<open>end\<close> the raw body is parsed when the content type says JSON. The step is \<open>None\<close>
  when \<open>end\<close> never comes: the middleware has then neither answered nor called
  \<open>next()\<close>, and the request stays open.
\<close>

definition captureRawBody :: "env \<Rightarrow> delivery \<Rightarrow> webhook_request step option \<times> effect list" where
  "captureRawBody E d =
     (case body_stream d of
        AlreadyRead \<Rightarrow> (None, [])
      | Unread cs \<Rightarrow>
          (let raw = concat (map (bufferToString E) cs) in
           if is_json (content_type d) then
             (case jsonParse E raw of
                Inr v \<Rightarrow>
                  (Some (Next \<lparr>signature_header = paystack_signature d,
                               rawBody = JStr raw, parsed_body = v\<rparr>), [])
              | Inl error \<Rightarrow>
                  (Some (Answer \<lparr>res_status = 400,
                           res_body = JObj [(''success'', JBool False),
                                            (''message'', JStr ''Invalid JSON payload'')]\<rparr>),
                   [Log Err ''Invalid JSON in webhook''
                      (JObj [(''error'', JStr (message error))])]))
           else
             (Some (Next \<lparr>signature_header = paystack_signature d,
                          rawBody = JStr raw, parsed_body = earlier_body d\<rparr>), [])))"

text \<open>The route's own \<open>verifyWebhookSignature\<close> middleware: the header must be there.\<close>

definition verifyWebhookSignatureMiddleware :: "webhook_request \<Rightarrow> webhook_request step \<times> effect list" where
  "verifyWebhookSignatureMiddleware req =
     (if \<not> truthy (header_value (signature_header req)) then
        (Answer \<lparr>res_status = 401,
                 res_body = JObj [(''success'', JBool False),
                                  (''message'', JStr ''Missing signature header'')]\<rparr>,
         [Log Warn ''Webhook received without X-Paystack-Signature header'' JUndefined])
      else (Next req, []))"

text \<open>
  \<open>router.post('/webhook', captureRawBody, verifyWebhookSignature, handleWebhook)\<close>:
  first the two handlers that follow the capture, then the whole route, whose answer is
  \<open>None\<close> when the request is left open.
\<close>

definition webhookHandlers :: "env \<Rightarrow> webhook_request \<Rightarrow> response comp" where
  "webhookHandlers E req =
     (case verifyWebhookSignatureMiddleware req of
        (Answer r, w) \<Rightarrow> (Inr r, w)
      | (Next req', w) \<Rightarrow> (case handleWebhook E req' of (r, w') \<Rightarrow> (r, w @ w')))"

definition webhookRoute :: "env \<Rightarrow> delivery \<Rightarrow> response option comp" where
  "webhookRoute E d =
     (case captureRawBody E d of
        (None, w) \<Rightarrow> (Inr None, w)
      | (Some (Answer r), w) \<Rightarrow> (Inr (Some r), w)
      | (Some (Next req), w) \<Rightarrow>
          (case webhookHandlers E req of (r, w') \<Rightarrow> (map_sum id Some r, w @ w')))"

text \<open>
  The signature check of the route as a whole: the header is there and not empty, and
  the service accepts it for the signed text.
\<close>

definition signatureVerifies :: "env \<Rightarrow> webhook_request \<Rightarrow> bool" where
  "signatureVerifies E req =
     (case signature_header req of
        None \<Rightarrow> False
      | Some s \<Rightarrow> s \<noteq> [] \<and> fst (verifyWebhookSignature E (JStr s) (signedText E req)) = Inr True)"

text \<open>Requests served one after the other: the answers, and all effects in order.\<close>

fun serve :: "('r \<Rightarrow> 'a comp) \<Rightarrow> 'r list \<Rightarrow> (exn + 'a) list \<times> effect list" where
  "serve h [] = ([], [])"
| "serve h (r # rs) =
     (case h r of (a, w) \<Rightarrow> (case serve h rs of (as, ws) \<Rightarrow> (a # as, w @ ws)))"

text \<open>
  The same when the world changes between the requests: each request comes with the
  environment it is served in.
\<close>

fun serveEach :: "('e \<Rightarrow> 'r \<Rightarrow> 'a comp) \<Rightarrow> ('e \<times> 'r) list \<Rightarrow> (exn + 'a) list \<times> effect list" where
  "serveEach h [] = ([], [])"
| "serveEach h ((E, r) # rs) =
     (case h E r of (a, w) \<Rightarrow> (case serveEach h rs of (as, ws) \<Rightarrow> (a # as, w @ ws)))"

text \<open>
  What the gateway reports for a reference: \<open>gateway_reports E reference t\<close> when its
  answer to the verify request has a truthy \<open>status\<close> flag and the transaction \<open>t\<close> as its
  \<open>data\<close>, with a \<open>customer\<close> and an \<open>authorization\<close> object in it.
\<close>

definition present :: "jsval \<Rightarrow> bool" where
  "present v = (v \<noteq> JUndefined \<and> v \<noteq> JNull)"

definition verify_url :: "env \<Rightarrow> string \<Rightarrow> string" where
  "verify_url E reference = baseUrl @ ''/transaction/verify/'' @ encodeURIComponent E reference"

definition gateway_reports :: "env \<Rightarrow> string \<Rightarrow> jsval \<Rightarrow> bool" where
  "gateway_reports E reference t =
     (case axiosGet E (verify_url E reference) of
        Inl e \<Rightarrow> False
      | Inr reply \<Rightarrow>
          (case js_prop reply ''status'' of
             Inl e \<Rightarrow> False
           | Inr flag \<Rightarrow>
               truthy flag \<and> js_prop reply ''data'' = Inr t \<and> present t
               \<and> (case js_prop t ''customer'' of Inl e \<Rightarrow> False | Inr c \<Rightarrow> present c)
               \<and> (case js_prop t ''authorization'' of Inl e \<Rightarrow> False | Inr a \<Rightarrow> present a)))"

section \<open>A sample environment\<close>

text \<open>
  A stand-in environment, for running the handlers on the concrete requests of the
  examples below. Its functions answer the inputs those examples use and nothing more
  (the digest is a readable stand-in for HMAC-SHA512); every general theorem holds for
  all environments.
\<close>

text \<open>
  A UTF-8 decoder for the sample: well-formed sequences stay as they are, and a lead
  byte without its continuation bytes, a stray continuation byte or any other byte
  becomes the replacement character U+FFFD.
\<close>

definition is_continuation :: "char \<Rightarrow> bool" where
  "is_continuation c = (128 \<le> (of_char c :: nat) \<and> (of_char c :: nat) < 192)"

definition continuation_bytes :: "char \<Rightarrow> nat" where
  "continuation_bytes c =
     (if 194 \<le> (of_char c :: nat) \<and> (of_char c :: nat) < 224 then 1
      else if 224 \<le> (of_char c :: nat) \<and> (of_char c :: nat) < 240 then 2
      else if 240 \<le> (of_char c :: nat) \<and> (of_char c :: nat) < 245 then 3
      else 0)"

definition replacement :: string where
  "replacement = [CHR 0xEF, CHR 0xBF, CHR 0xBD]"

fun sample_decode :: "string \<Rightarrow> string" where
  "sample_decode [] = []"
| "sample_decode (c # cs) =
     (if (of_char c :: nat) < 128 then c # sample_decode cs
      else
        let k = continuation_bytes c;
            tl = takeWhile is_continuation (take k cs)
        in if 0 < k \<and> length tl = k then c # tl @ sample_decode (drop k cs)
           else replacement @ sample_decode (drop (length tl) cs))"

definition dq :: "string \<Rightarrow> string" where
  "dq s = CHR 0x22 # s @ [CHR 0x22]"

definition wire_charge_success :: string where
  "wire_charge_success =
     ''{'' @ dq ''event'' @ '':'' @ dq ''charge.success'' @ '','' @ dq ''data'' @ '':{''
       @ dq ''reference'' @ '':'' @ dq ''ref_abc123'' @ '','' @ dq ''amount''
       @ '':1500000}}''"

definition event_charge_success :: jsval where
  "event_charge_success =
     JObj [(''event'', JStr ''charge.success''),
           (''data'', JObj [(''reference'', JStr ''ref_abc123''),
                            (''amount'', JNum 1500000)])]"

definition wire_unknown_event :: string where
  "wire_unknown_event =
     ''{'' @ dq ''event'' @ '':'' @ dq ''subscription.create'' @ '','' @ dq ''data''
       @ '':{}}''"

definition event_unknown :: jsval where
  "event_unknown = JObj [(''event'', JStr ''subscription.create''), (''data'', JObj [])]"

definition wire_no_data :: string where
  "wire_no_data = ''{'' @ dq ''event'' @ '':'' @ dq ''charge.success'' @ ''}''"

definition event_no_data :: jsval where
  "event_no_data = JObj [(''event'', JStr ''charge.success'')]"

text \<open>
  A body with a naira sign in it, and the text that comes out when its bytes are decoded
  in two chunks, the first ending after the second byte of the sign.
\<close>

definition wire_note_head :: string where
  "wire_note_head =
     ''{'' @ dq ''event'' @ '':'' @ dq ''charge.success'' @ '','' @ dq ''data'' @ '':{''
       @ dq ''reference'' @ '':'' @ dq ''ref_abc123'' @ '','' @ dq ''note'' @ '':''
       @ [CHR 0x22]"

definition wire_note_tail :: string where
  "wire_note_tail = [CHR 0x22] @ ''}}''"

definition wire_note :: string where
  "wire_note = wire_note_head @ naira @ wire_note_tail"

definition wire_note_damaged :: string where
  "wire_note_damaged = wire_note_head @ replacement @ replacement @ wire_note_tail"

definition event_note :: "string \<Rightarrow> jsval" where
  "event_note n =
     JObj [(''event'', JStr ''charge.success''),
           (''data'', JObj [(''reference'', JStr ''ref_abc123''), (''note'', JStr n)])]"

definition sample_parse :: "string \<Rightarrow> exn + jsval" where
  "sample_parse s =
     (if s = wire_charge_success then Inr event_charge_success
      else if s = wire_unknown_event then Inr event_unknown
      else if s = wire_no_data then Inr event_no_data
      else if s = wire_note then Inr (event_note naira)
      else if s = wire_note_damaged then Inr (event_note (replacement @ replacement))
      else Inl (SyntaxError ''Unexpected end of JSON input''))"

definition sample_stringify :: "jsval \<Rightarrow> jsval" where
  "sample_stringify v = (if v = JObj [] then JStr ''{}'' else JUndefined)"

definition sample_hmac :: "string \<Rightarrow> string \<Rightarrow> string" where
  "sample_hmac key text = ''hmac('' @ key @ '','' @ text @ '')''"

text \<open>\<open>substring(0, n)\<close> of a string of ASCII characters.\<close>

definition sample_substring :: "string \<Rightarrow> nat \<Rightarrow> string" where
  "sample_substring s n = take n s"

fun sample_toString :: "jsval \<Rightarrow> string" where
  "sample_toString (JStr s) = s"
| "sample_toString v = ''[object Object]''"

fun sample_divide :: "jsval \<Rightarrow> rat \<Rightarrow> jsval" where
  "sample_divide (JNum r) k = JNum (r / k)"
| "sample_divide v k = JUndefined"

text \<open>Percent-encoding of the ASCII characters outside \<open>A-Z a-z 0-9 - _ . ! ~ * ' ( )\<close>.\<close>

definition hex_digit :: "nat \<Rightarrow> char" where
  "hex_digit n = (''0123456789ABCDEF'') ! n"

definition unreserved :: "char \<Rightarrow> bool" where
  "unreserved c =
     (c \<in> set ''ABCDEFGHIJKLMNOPQRSTUVWXYZabcdefghijklmnopqrstuvwxyz0123456789-_.!~*()''
      \<or> c = CHR 0x27)"

definition sample_encode :: "string \<Rightarrow> string" where
  "sample_encode s =
     concat (map (\<lambda>c. if unreserved c then [c]
                       else [CHR ''%'', hex_digit (of_char c div 16), hex_digit (of_char c mod 16)]) s)"

definition transaction_success :: jsval where
  "transaction_success =
     JObj [(''status'', JStr ''success''),
           (''reference'', JStr ''ref_abc123''),
           (''amount'', JNum 1500000),
           (''paid_at'', JStr ''2025-12-18T10:30:00.000Z''),
           (''customer'', JObj [(''email'', JStr ''customer@test.com''),
                                (''customer_code'', JStr ''CUS_1'')]),
           (''metadata'', JObj []),
           (''authorization'', JObj [(''authorization_code'', JStr ''AUTH_1'')])]"

definition transaction_abandoned :: jsval where
  "transaction_abandoned =
     JObj [(''status'', JStr ''abandoned''),
           (''reference'', JStr ''ref_pending1''),
           (''amount'', JNum 1500000),
           (''paid_at'', JNull),
           (''customer'', JObj [(''email'', JStr ''customer@test.com''),
                                (''customer_code'', JStr ''CUS_1'')]),
           (''metadata'', JObj []),
           (''authorization'', JObj [])]"

text \<open>A failed transaction that comes without an authorization object.\<close>

definition transaction_failed :: jsval where
  "transaction_failed =
     JObj [(''status'', JStr ''failed''),
           (''reference'', JStr ''ref_failed1''),
           (''amount'', JNum 1500000),
           (''paid_at'', JNull),
           (''customer'', JObj [(''email'', JStr ''customer@test.com''),
                                (''customer_code'', JStr ''CUS_1'')]),
           (''metadata'', JObj []),
           (''authorization'', JNull)]"

definition sample_get :: "string \<Rightarrow> exn + jsval" where
  "sample_get url =
     (if url = ''https://api.paystack.co/transaction/verify/ref_abc123'' then
        Inr (JObj [(''status'', JBool True),
                   (''message'', JStr ''Verification successful''),
                   (''data'', transaction_success)])
      else if url = ''https://api.paystack.co/transaction/verify/ref_pending1'' then
        Inr (JObj [(''status'', JBool True),
                   (''message'', JStr ''Verification successful''),
                   (''data'', transaction_abandoned)])
      else if url = ''https://api.paystack.co/transaction/verify/ref_failed1'' then
        Inr (JObj [(''status'', JBool True),
                   (''message'', JStr ''Verification successful''),
                   (''data'', transaction_failed)])
      else Inl (Error ''Request failed with status code 400''))"

definition sample_post :: "string \<Rightarrow> jsval \<Rightarrow> exn + jsval" where
  "sample_post url payload =
     Inr (JObj [(''status'', JBool True),
                (''message'', JStr ''Authorization URL created''),
                (''data'', JObj [(''authorization_url'', JStr ''https://checkout.paystack.com/x1''),
                                 (''access_code'', JStr ''x1''),
                                 (''reference'', JStr ''ref_abc123'')])])"

definition sample_env :: env where
  "sample_env =
     \<lparr>secretKey = ''sk_test_1'',
      clientUrl = ''http://localhost:3000'',
      development = False,
      nowISO = ''2025-12-18T10:00:00.000Z'',
      hmacSha512Hex = sample_hmac,
      bufferToString = sample_decode,
      substring = sample_substring,
      jsonParse = sample_parse,
      jsonStringify = sample_stringify,
      toString = sample_toString,
      divide = sample_divide,
      encodeURIComponent = sample_encode,
      axiosPost = sample_post,
      axiosGet = sample_get\<rparr>"

text \<open>The same environment at a moment when the gateway does not answer in time.\<close>

definition gateway_timeout :: "string \<Rightarrow> exn + jsval" where
  "gateway_timeout url = Inl (Error ''timeout of 10000ms exceeded'')"

definition sample_env_down :: env where
  "sample_env_down = sample_env\<lparr>axiosGet := gateway_timeout\<rparr>"

text \<open>Sample webhook deliveries; the first arrives in two chunks.\<close>

definition json_delivery :: "string option \<Rightarrow> string list \<Rightarrow> delivery" where
  "json_delivery sg cs =
     \<lparr>content_type = Some ''application/json'', paystack_signature = sg,
      body_stream = Unread cs, earlier_body = JObj []\<rparr>"

definition delivery_charge_success :: delivery where
  "delivery_charge_success =
     json_delivery (Some (sample_hmac ''sk_test_1'' wire_charge_success))
       [take 20 wire_charge_success, drop 20 wire_charge_success]"

definition delivery_unknown_event :: delivery where
  "delivery_unknown_event =
     json_delivery (Some (sample_hmac ''sk_test_1'' wire_unknown_event)) [wire_unknown_event]"

definition delivery_no_data :: delivery where
  "delivery_no_data =
     json_delivery (Some (sample_hmac ''sk_test_1'' wire_no_data)) [wire_no_data]"

definition delivery_forged :: delivery where
  "delivery_forged = json_delivery (Some ''deadbeef'') [wire_charge_success]"

text \<open>
  The body with the naira sign, correctly signed, arriving in two chunks that part
  inside the sign.
\<close>

definition delivery_split :: delivery where
  "delivery_split =
     json_delivery (Some (sample_hmac ''sk_test_1'' wire_note))
       [wire_note_head @ [CHR 0xE2, CHR 0x82], CHR 0xA6 # wire_note_tail]"

definition delivery_unsigned :: delivery where
  "delivery_unsigned = json_delivery None [wire_charge_success]"

text \<open>
  A delivery with no body and no JSON content type, signed over the text \<open>{}\<close>; the
  earlier body parser has left \<open>req.body = {}\<close>.
\<close>

definition delivery_empty :: delivery where
  "delivery_empty =
     \<lparr>content_type = None,
      paystack_signature = Some (sample_hmac ''sk_test_1'' ''{}''),
      body_stream = Unread [],
      earlier_body = JObj []\<rparr>"

text \<open>
  The first delivery again, after a body parser ahead of the router has read and parsed
  its body.
\<close>

definition delivery_already_read :: delivery where
  "delivery_already_read =
     \<lparr>content_type = Some ''application/json'',
      paystack_signature = Some (sample_hmac ''sk_test_1'' wire_charge_success),
      body_stream = AlreadyRead,
      earlier_body = event_charge_success\<rparr>"

text \<open>The same, as the handlers see them after the capture.\<close>

definition captured_request :: "string option \<Rightarrow> string \<Rightarrow> jsval \<Rightarrow> webhook_request" where
  "captured_request sg raw b = \<lparr>signature_header = sg, rawBody = JStr raw, parsed_body = b\<rparr>"

definition signed_request :: "string \<Rightarrow> jsval \<Rightarrow> webhook_request" where
  "signed_request raw b = captured_request (Some (sample_hmac ''sk_test_1'' raw)) raw b"

text \<open>What the sample gateway's two transactions look like once the service returns them.\<close>

definition verification_success :: jsval where
  "verification_success =
     JObj [(''success'', JBool True),
           (''status'', JStr ''success''),
           (''amount'', JNum 1500000),
           (''email'', JStr ''customer@test.com''),
           (''customerId'', JStr ''CUS_1''),
           (''metadata'', JObj []),
           (''paidAt'', JStr ''2025-12-18T10:30:00.000Z''),
           (''authorizationCode'', JStr ''AUTH_1'')]"

definition verification_abandoned :: jsval where
  "verification_abandoned =
     JObj [(''success'', JBool True),
           (''status'', JStr ''abandoned''),
           (''amount'', JNum 1500000),
           (''email'', JStr ''customer@test.com''),
           (''customerId'', JStr ''CUS_1''),
           (''metadata'', JObj []),
           (''paidAt'', JNull),
           (''authorizationCode'', JUndefined)]"

text \<open>The double nearest to 128.015.\<close>

definition amount_128_015 :: rat where
  "amount_128_015 = 1126031848237957 / 8796093022208"

definition sample_order :: "rat option \<Rightarrow> initialize_request" where
  "sample_order a =
     \<lparr>body_orderId = JStr ''507f1f77bcf86cd799439011'', body_amount = a, user_id = JStr ''u1''\<rparr>"

section \<open>Reading results\<close>

text \<open>\<open>v.k\<close> where \<open>v\<close> is known not to be \<open>undefined\<close> or \<open>null\<close>.\<close>

definition field :: "jsval \<Rightarrow> string \<Rightarrow> jsval" where
  "field v k = (case js_prop v k of Inr x \<Rightarrow> x | Inl e \<Rightarrow> JUndefined)"

text \<open>An effect that changes nothing anywhere: a log entry or a GET to the gateway.\<close>

fun is_query :: "effect \<Rightarrow> bool" where
  "is_query (Log l m meta) = True"
| "is_query (HttpGet url auth) = True"
| "is_query (HttpPost url payload auth) = False"

section \<open>Properties\<close>

subsection \<open>Running computations\<close>

lemma fst_seq: "fst (seq m f) = (case fst m of Inl e \<Rightarrow> Inl e | Inr x \<Rightarrow> fst (f x))"
  by (auto simp: seq_def split: prod.splits sum.splits)

lemma snd_seq: "snd (seq m f) = (case fst m of Inl e \<Rightarrow> snd m | Inr x \<Rightarrow> snd m @ snd (f x))"
  by (auto simp: seq_def split: prod.splits sum.splits)

lemma fst_try_catch:
  "fst (try_catch m h) = (case fst m of Inr x \<Rightarrow> Inr x | Inl e \<Rightarrow> fst (h e))"
  by (auto simp: try_catch_def split: prod.splits sum.splits)

lemma snd_try_catch:
  "snd (try_catch m h) = (case fst m of Inr x \<Rightarrow> snd m | Inl e \<Rightarrow> snd m @ snd (h e))"
  by (auto simp: try_catch_def split: prod.splits sum.splits)

lemma comp_simps [simp]:
  "fst (ret x) = Inr x" "snd (ret x) = []"
  "fst (throw e) = Inl e" "snd (throw e) = []"
  "fst (logger l m meta) = Inr ()" "snd (logger l m meta) = [Log l m meta]"
  "fst (get v k) = js_prop v k" "snd (get v k) = []"
  "fst (respond c b) = Inr \<lparr>res_status = c, res_body = b\<rparr>" "snd (respond c b) = []"
  "fst (post E url p) = axiosPost E url p" "snd (post E url p) = [HttpPost url p (bearer E)]"
  "fst (fetch E url) = axiosGet E url" "snd (fetch E url) = [HttpGet url (bearer E)]"
  by (simp_all add: ret_def throw_def logger_def get_def respond_def post_def fetch_def)

lemma list_all_seq:
  "list_all P (snd m) \<Longrightarrow> (\<And>x. list_all P (snd (f x))) \<Longrightarrow> list_all P (snd (seq m f))"
  by (auto simp: snd_seq split: sum.splits)

lemma list_all_try_catch:
  "list_all P (snd m) \<Longrightarrow> (\<And>e. list_all P (snd (h e))) \<Longrightarrow> list_all P (snd (try_catch m h))"
  by (auto simp: snd_try_catch split: sum.splits)

lemma js_prop_total: "js_prop v k = Inr s \<Longrightarrow> js_prop v k' = Inr (field v k')"
  by (cases v) (auto simp: field_def)

lemma js_prop_field: "v \<noteq> JUndefined \<Longrightarrow> v \<noteq> JNull \<Longrightarrow> js_prop v k = Inr (field v k)"
  by (cases v) (auto simp: field_def)

lemma serve_replicate: "fst (serve h (replicate n r)) = replicate n (fst (h r))"
  by (induction n) (auto split: prod.splits)

lemma serve_effects:
  "(\<And>r. list_all P (snd (h r))) \<Longrightarrow> list_all P (snd (serve h rs))"
  by (induction rs) (auto split: prod.splits, metis snd_conv)

subsection \<open>The signature verifier\<close>

lemma verifyWebhookSignature_result:
  "fst (verifyWebhookSignature E signature body) =
     Inr (\<exists>s b. signature = JStr s \<and> body = JStr b \<and> s \<noteq> [] \<and> b \<noteq> []
                \<and> hmacSha512Hex E (secretKey E) b = s)"
  by (cases signature; cases body)
     (auto simp: verifyWebhookSignature_def try_catch_def seq_def ret_def throw_def logger_def Let_def
           split: prod.splits sum.splits)

lemma verifyWebhookSignature_log: "list_all is_log (snd (verifyWebhookSignature E sg b))"
  unfolding verifyWebhookSignature_def Let_def
  by (cases sg; cases b) (auto intro!: list_all_try_catch list_all_seq simp: snd_seq split: sum.splits)

text \<open>
  C4. \<open>verifyWebhookSignature\<close> returns for every pair of arguments, never throws, and
  fails closed: it returns \<open>false\<close> when the signature is missing or empty, when the body
  is missing or empty, and when the digest computed over the body differs from the
  signature.
\<close>

theorem verifyWebhookSignature_fails_closed:
  "(\<exists>b. fst (verifyWebhookSignature E signature body) = Inr b)
   \<and> (\<not> truthy signature \<longrightarrow> fst (verifyWebhookSignature E signature body) = Inr False)
   \<and> (\<not> truthy body \<longrightarrow> fst (verifyWebhookSignature E signature body) = Inr False)
   \<and> (\<forall>b. body = JStr b \<longrightarrow> JStr (hmacSha512Hex E (secretKey E) b) \<noteq> signature
          \<longrightarrow> fst (verifyWebhookSignature E signature body) = Inr False)"
  by (auto simp: verifyWebhookSignature_result)

theorem verifyWebhookSignature_fails_closed_witness:
  "fst (verifyWebhookSignature sample_env JUndefined (JStr wire_charge_success)) = Inr False
   \<and> fst (verifyWebhookSignature sample_env (JStr ''abc'') (JStr [])) = Inr False
   \<and> JStr (hmacSha512Hex sample_env (secretKey sample_env) wire_charge_success) \<noteq> JStr ''abc''
   \<and> fst (verifyWebhookSignature sample_env (JStr ''abc'') (JStr wire_charge_success)) = Inr False"
  using verifyWebhookSignature_fails_closed [of sample_env JUndefined "JStr wire_charge_success"]
        verifyWebhookSignature_fails_closed [of sample_env "JStr ''abc''" "JStr []"]
        verifyWebhookSignature_fails_closed [of sample_env "JStr ''abc''" "JStr wire_charge_success"]
  by (simp add: sample_env_def sample_hmac_def)


subsection \<open>The webhook route\<close>

lemma handleWebhook_status:
  assumes "signature_header req = Some s" and "s \<noteq> []"
  shows "\<exists>r. fst (handleWebhook E req) = Inr r
     \<and> res_status r =
         (if fst (verifyWebhookSignature E (JStr s) (signedText E req)) = Inr True then 200 else 401)"
  using assms
  by (auto simp: verifyWebhookSignature_result handleWebhook_def fst_try_catch fst_seq Let_def
       header_value_def split: sum.splits)

lemma signatureVerifies_iff:
  "signatureVerifies E req \<longleftrightarrow>
     (\<exists>s b. signature_header req = Some s \<and> s \<noteq> [] \<and> signedText E req = JStr b \<and> b \<noteq> []
            \<and> hmacSha512Hex E (secretKey E) b = s)"
  by (auto simp: signatureVerifies_def verifyWebhookSignature_result split: option.splits)

lemma webhookHandlers_status:
  "\<exists>r. fst (webhookHandlers E req) = Inr r
       \<and> res_status r = (if signatureVerifies E req then 200 else 401)"
proof (cases "\<exists>s. signature_header req = Some s \<and> s \<noteq> []")
  case False
  then show ?thesis
    by (cases "signature_header req")
       (auto simp: webhookHandlers_def verifyWebhookSignatureMiddleware_def header_value_def
          signatureVerifies_def)
next
  case True
  then obtain s where s: "signature_header req = Some s" "s \<noteq> []" by blast
  have "fst (webhookHandlers E req) = fst (handleWebhook E req)"
    using s
    by (simp add: webhookHandlers_def verifyWebhookSignatureMiddleware_def header_value_def
        split: prod.splits)
  then show ?thesis
    using handleWebhook_status [OF s, of E] s by (simp add: signatureVerifies_def)
qed

lemmas sample_defs =
  sample_env_def sample_hmac_def sample_parse_def json_delivery_def
  wire_charge_success_def wire_unknown_event_def wire_no_data_def dq_def

text \<open>
  C2. Whatever the body of a webhook POST is, the route's signature middleware and
  \<open>handleWebhook\<close> answer 200 when the signature verifies, also when the event is unknown
  and when processing it throws, and 401 when it does not: when the header is missing or
  empty, or differs from the digest of the signed text.
\<close>

theorem webhook_answers_200_or_401:
  "(\<exists>r. fst (webhookHandlers E req) = Inr r
        \<and> res_status r = (if signatureVerifies E req then 200 else 401))
   \<and> (signatureVerifies E req \<longleftrightarrow>
        (\<exists>s b. signature_header req = Some s \<and> s \<noteq> [] \<and> signedText E req = JStr b \<and> b \<noteq> []
               \<and> hmacSha512Hex E (secretKey E) b = s))"
  using webhookHandlers_status [of E req] signatureVerifies_iff [of E req] by blast

theorem webhook_answers_200_or_401_witness:
  "signatureVerifies sample_env (signed_request wire_charge_success event_charge_success)
   \<and> (\<exists>r. fst (webhookHandlers sample_env (signed_request wire_charge_success event_charge_success)) = Inr r
          \<and> res_status r = 200)
   \<and> (\<exists>r. fst (webhookHandlers sample_env (signed_request wire_unknown_event event_unknown)) = Inr r
          \<and> res_status r = 200)
   \<and> (\<exists>r. fst (webhookHandlers sample_env (signed_request wire_no_data event_no_data)) = Inr r
          \<and> res_status r = 200)
   \<and> \<not> signatureVerifies sample_env
         (captured_request (Some ''deadbeef'') wire_charge_success event_charge_success)
   \<and> (\<exists>r. fst (webhookHandlers sample_env
                  (captured_request (Some ''deadbeef'') wire_charge_success event_charge_success)) = Inr r
          \<and> res_status r = 401)
   \<and> (\<exists>r. fst (webhookHandlers sample_env
                  (captured_request None wire_charge_success event_charge_success)) = Inr r
          \<and> res_status r = 401)"
  using webhook_answers_200_or_401 [of sample_env "signed_request wire_charge_success event_charge_success"]
        webhook_answers_200_or_401 [of sample_env "signed_request wire_unknown_event event_unknown"]
        webhook_answers_200_or_401 [of sample_env "signed_request wire_no_data event_no_data"]
        webhook_answers_200_or_401 [of sample_env
          "captured_request (Some ''deadbeef'') wire_charge_success event_charge_success"]
        webhook_answers_200_or_401 [of sample_env
          "captured_request None wire_charge_success event_charge_success"]
  by (simp add: signatureVerifies_iff signed_request_def captured_request_def signedText_def js_or_def sample_defs)

text \<open>
  C3 (as stated, refuted). The delivery \<open>delivery_empty\<close> has no body; \<open>captureRawBody\<close>
  passes it on with \<open>rawBody = ''\<close>, and the handler then signs the re-serialization
  \<open>JSON.stringify(req.body) = {}\<close>, which the header matches: the signature check
  succeeds on a text that is not the raw body.
\<close>

theorem signed_text_reserialized_counterexample:
  "body_stream delivery_empty = Unread []
   \<and> captureRawBody sample_env delivery_empty =
     (Some (Next \<lparr>signature_header = paystack_signature delivery_empty, rawBody = JStr [],
                  parsed_body = JObj []\<rparr>), [])
   \<and> signedText sample_env
        \<lparr>signature_header = paystack_signature delivery_empty, rawBody = JStr [],
         parsed_body = JObj []\<rparr> = JStr ''{}''
   \<and> signedText sample_env
        \<lparr>signature_header = paystack_signature delivery_empty, rawBody = JStr [],
         parsed_body = JObj []\<rparr> \<noteq> JStr (concat [])
   \<and> fst (verifyWebhookSignature sample_env (JStr (sample_hmac ''sk_test_1'' ''{}''))
        (signedText sample_env
           \<lparr>signature_header = paystack_signature delivery_empty, rawBody = JStr [],
            parsed_body = JObj []\<rparr>)) = Inr True"
  by (simp add: captureRawBody_def delivery_empty_def is_json_def signedText_def js_or_def
      sample_env_def sample_stringify_def sample_hmac_def verifyWebhookSignature_result)

text \<open>
  C3 (amended). For every delivery that \<open>captureRawBody\<close> passes on and whose chunks each
  decode without loss, \<open>req.rawBody\<close> is the bytes of the body as they came over the wire,
  taken before \<open>JSON.parse\<close>, which parses that text; when the body is not empty the
  text that is signed is those bytes, and the signature verifies exactly when the header
  is their digest; only when the body is empty is the signed text
  \<open>JSON.stringify(req.body)\<close>.
\<close>

theorem signed_text_is_raw_body:
  assumes "captureRawBody E d = (Some (Next req), w)"
    and "body_stream d = Unread cs"
    and "\<forall>c\<in>set cs. bufferToString E c = c"
  shows "rawBody req = JStr (concat cs)
     \<and> (is_json (content_type d) \<longrightarrow> jsonParse E (concat cs) = Inr (parsed_body req))
     \<and> (concat cs \<noteq> [] \<longrightarrow>
          signedText E req = JStr (concat cs)
          \<and> (signatureVerifies E req \<longleftrightarrow>
               paystack_signature d = Some (hmacSha512Hex E (secretKey E) (concat cs))
               \<and> hmacSha512Hex E (secretKey E) (concat cs) \<noteq> []))
     \<and> (concat cs = [] \<longrightarrow> signedText E req = jsonStringify E (parsed_body req))"
proof -
  have decoded: "map (bufferToString E) cs = cs"
    using assms(3) by (simp add: map_idI)
  have req: "rawBody req = JStr (concat cs)" "signature_header req = paystack_signature d"
    "is_json (content_type d) \<longrightarrow> jsonParse E (concat cs) = Inr (parsed_body req)"
    using assms(1,2) decoded
    by (auto simp: captureRawBody_def Let_def split: if_splits sum.splits)
  then show ?thesis
    by (auto simp: signatureVerifies_iff signedText_def js_or_def)
qed

lemma sample_decode_ascii: "\<forall>c\<in>set s. (of_char c :: nat) < 128 \<Longrightarrow> sample_decode s = s"
  by (induction s) auto

lemma wire_charge_success_decodes:
  "sample_decode (take 20 wire_charge_success) = take 20 wire_charge_success"
  "sample_decode (drop 20 wire_charge_success) = drop 20 wire_charge_success"
  by (rule sample_decode_ascii, simp add: wire_charge_success_def dq_def)+

theorem signed_text_is_raw_body_witness:
  "captureRawBody sample_env delivery_charge_success =
     (Some (Next \<lparr>signature_header = paystack_signature delivery_charge_success,
                  rawBody = JStr wire_charge_success, parsed_body = event_charge_success\<rparr>), [])
   \<and> body_stream delivery_charge_success =
       Unread [take 20 wire_charge_success, drop 20 wire_charge_success]
   \<and> bufferToString sample_env (take 20 wire_charge_success) = take 20 wire_charge_success
   \<and> bufferToString sample_env (drop 20 wire_charge_success) = drop 20 wire_charge_success
   \<and> signedText sample_env
        \<lparr>signature_header = paystack_signature delivery_charge_success,
         rawBody = JStr wire_charge_success, parsed_body = event_charge_success\<rparr>
       = JStr wire_charge_success"
proof -
  have decoded: "\<forall>c\<in>set [take 20 wire_charge_success, drop 20 wire_charge_success].
         bufferToString sample_env c = c"
    using wire_charge_success_decodes by (simp add: sample_env_def)
  have stream: "body_stream delivery_charge_success =
       Unread [take 20 wire_charge_success, drop 20 wire_charge_success]"
    by (simp add: delivery_charge_success_def json_delivery_def)
  have capture: "captureRawBody sample_env delivery_charge_success =
     (Some (Next \<lparr>signature_header = paystack_signature delivery_charge_success,
                  rawBody = JStr wire_charge_success, parsed_body = event_charge_success\<rparr>), [])"
    using decoded
    by (simp add: captureRawBody_def stream is_json_def Let_def delivery_charge_success_def
        json_delivery_def sample_env_def sample_parse_def)
  have body: "concat [take 20 wire_charge_success, drop 20 wire_charge_success] \<noteq> []"
    by (simp add: wire_charge_success_def)
  show ?thesis
    using signed_text_is_raw_body [OF capture stream decoded] capture stream decoded body
    by simp
qed

text \<open>
  A chunk that ends inside a character does not decode to its own bytes: in the sample
  environment the delivery \<open>delivery_split\<close>, signed over its wire bytes, is refused.
  And a delivery whose body was read before the route ran gets no answer.
\<close>

lemma split_delivery_refused:
  "\<exists>r. fst (webhookRoute sample_env delivery_split) = Inr (Some r) \<and> res_status r = 401"
proof -
  have head: "sample_decode (wire_note_head @ [CHR 0xE2, CHR 0x82]) = wire_note_head @ replacement"
    by (simp add: wire_note_head_def dq_def continuation_bytes_def is_continuation_def)
  have tail: "sample_decode (CHR 0xA6 # wire_note_tail) = replacement @ wire_note_tail"
    by (simp add: wire_note_tail_def continuation_bytes_def is_continuation_def)
  have raw: "bufferToString sample_env (wire_note_head @ [CHR 0xE2, CHR 0x82])
        @ bufferToString sample_env (CHR 0xA6 # wire_note_tail) = wire_note_damaged"
    by (simp add: sample_env_def head tail wire_note_damaged_def del: sample_decode.simps)
  have parsed: "jsonParse sample_env wire_note_damaged = Inr (event_note (replacement @ replacement))"
    by (simp add: sample_env_def sample_parse_def wire_note_damaged_def wire_note_def
        wire_note_head_def wire_note_tail_def wire_charge_success_def wire_unknown_event_def
        wire_no_data_def dq_def naira_def replacement_def)
  let ?req = "\<lparr>signature_header = Some (sample_hmac ''sk_test_1'' wire_note),
      rawBody = JStr wire_note_damaged, parsed_body = event_note (replacement @ replacement)\<rparr>"
  have capture: "captureRawBody sample_env delivery_split = (Some (Next ?req), [])"
    by (simp add: captureRawBody_def delivery_split_def json_delivery_def is_json_def Let_def
        raw parsed del: sample_decode.simps)
  have "\<not> signatureVerifies sample_env ?req"
    by (simp add: signatureVerifies_iff signedText_def js_or_def sample_env_def sample_hmac_def
        wire_note_damaged_def wire_note_def wire_note_head_def wire_note_tail_def naira_def
        replacement_def dq_def)
  with webhookHandlers_status [of sample_env ?req] show ?thesis
    by (cases "webhookHandlers sample_env ?req") (auto simp: webhookRoute_def capture)
qed

lemma already_read_delivery_unanswered:
  "webhookRoute E (d\<lparr>body_stream := AlreadyRead\<rparr>) = (Inr None, [])"
  by (simp add: webhookRoute_def captureRawBody_def)

subsection \<open>Initialization\<close>

text \<open>
  C5. When the amount in kobo is below 10000 or above 50000000, \<open>initializePayment\<close>
  answers 400 and has done nothing at all: no gateway call, so no reference exists, and
  no write. With a valid order id the answer is the range error. Every amount from 10000
  to 50000000 kobo passes the check: the gateway is called with it.
\<close>

theorem initialize_amount_range:
  "(amountInKobo (body_amount req) < minAmount \<or> maxAmount < amountInKobo (body_amount req)
      \<longrightarrow> (\<exists>b. initializePayment E req = (Inr \<lparr>res_status = 400, res_body = b\<rparr>, [])))
   \<and> (truthy (body_orderId req) \<and> is_string (body_orderId req)
        \<and> amountInKobo (body_amount req) < minAmount
      \<longrightarrow> initializePayment E req =
            (Inr \<lparr>res_status = 400,
                  res_body = JObj [(''success'', JBool False),
                     (''message'', JStr (''Order amount must be at least '' @ naira @ ''100''))]\<rparr>,
             []))
   \<and> (truthy (body_orderId req) \<and> is_string (body_orderId req)
        \<and> maxAmount < amountInKobo (body_amount req)
      \<longrightarrow> initializePayment E req =
            (Inr \<lparr>res_status = 400,
                  res_body = JObj [(''success'', JBool False),
                     (''message'', JStr (''Order amount cannot exceed '' @ naira @ ''500,000''))]\<rparr>,
             []))
   \<and> (truthy (body_orderId req) \<and> is_string (body_orderId req)
        \<and> minAmount \<le> amountInKobo (body_amount req)
        \<and> amountInKobo (body_amount req) \<le> maxAmount
      \<longrightarrow> (\<exists>payload rest. snd (initializePayment E req)
              = HttpPost (baseUrl @ ''/transaction/initialize'') payload (bearer E) # rest
            \<and> js_prop payload ''amount'' = Inr (JNum (of_int (amountInKobo (body_amount req))))))"
  apply (intro conjI impI)
     apply (auto simp: initializePayment_def minAmount_def maxAmount_def prod_eq_iff
              fst_try_catch snd_try_catch Let_def)[3]
  apply (simp add: initializePayment_def initializeTransaction_def minAmount_def maxAmount_def
           fst_try_catch snd_try_catch fst_seq snd_seq Let_def split: sum.splits)
  done

lemma kobo_samples:
  "amountInKobo (Some 50) = 5000" "amountInKobo (Some 600000) = 60000000"
  "amountInKobo (Some 15000) = 1500000" "amountInKobo None = 1000000"
  "amountInKobo (Some 0) = 1000000"
  by code_simp+

theorem initialize_amount_range_witness:
  "amountInKobo (Some 50) < minAmount
   \<and> initializePayment sample_env (sample_order (Some 50)) =
       (Inr \<lparr>res_status = 400,
             res_body = JObj [(''success'', JBool False),
                (''message'', JStr (''Order amount must be at least '' @ naira @ ''100''))]\<rparr>, [])
   \<and> maxAmount < amountInKobo (Some 600000)
   \<and> initializePayment sample_env (sample_order (Some 600000)) =
       (Inr \<lparr>res_status = 400,
             res_body = JObj [(''success'', JBool False),
                (''message'', JStr (''Order amount cannot exceed '' @ naira @ ''500,000''))]\<rparr>, [])
   \<and> minAmount \<le> amountInKobo (Some 15000) \<and> amountInKobo (Some 15000) \<le> maxAmount
   \<and> (\<exists>payload rest. snd (initializePayment sample_env (sample_order (Some 15000)))
              = HttpPost (baseUrl @ ''/transaction/initialize'') payload (bearer sample_env) # rest
            \<and> js_prop payload ''amount'' = Inr (JNum 1500000))"
  using initialize_amount_range [of "sample_order (Some 50)" sample_env]
        initialize_amount_range [of "sample_order (Some 600000)" sample_env]
        initialize_amount_range [of "sample_order (Some 15000)" sample_env]
  by (simp add: sample_order_def kobo_samples minAmount_def maxAmount_def)

lemma initializePayment_call:
  assumes "truthy oid" and "is_string oid"
    and "minAmount \<le> amountInKobo a" and "amountInKobo a \<le> maxAmount"
  shows "\<exists>payload rest.
      snd (initializePayment E \<lparr>body_orderId = oid, body_amount = a, user_id = uid\<rparr>)
        = HttpPost (baseUrl @ ''/transaction/initialize'') payload (bearer E) # rest
      \<and> js_prop payload ''amount'' = Inr (JNum (of_int (amountInKobo a)))"
  using assms
  by (simp add: initializePayment_def initializeTransaction_def minAmount_def maxAmount_def
         fst_try_catch snd_try_catch fst_seq snd_seq Let_def split: sum.splits)

text \<open>
  C10. When the request has no amount, or a falsy one, the controller takes 10000 naira
  as the order total: it behaves exactly as for the amount 10000, and with a valid order
  id it calls the gateway with 1000000 kobo. No stored order total is read (the handler
  has none to read). A supplied amount \<open>x\<close> is converted as \<open>Math.round(x * 100)\<close>, the
  product rounded to binary64 first, and that is the amount the gateway is called with.
\<close>

theorem initialize_default_amount:
  "(a = None \<or> a = Some 0 \<longrightarrow>
        orderTotal a = 10000 \<and> amountInKobo a = 1000000
        \<and> initializePayment E \<lparr>body_orderId = oid, body_amount = a, user_id = uid\<rparr>
          = initializePayment E \<lparr>body_orderId = oid, body_amount = Some 10000, user_id = uid\<rparr>
        \<and> (truthy oid \<and> is_string oid \<longrightarrow>
             (\<exists>payload rest.
                snd (initializePayment E \<lparr>body_orderId = oid, body_amount = a, user_id = uid\<rparr>)
                  = HttpPost (baseUrl @ ''/transaction/initialize'') payload (bearer E) # rest
                \<and> js_prop payload ''amount'' = Inr (JNum 1000000))))
   \<and> (\<forall>x. a = Some x \<longrightarrow> x \<noteq> 0 \<longrightarrow>
        amountInKobo a = \<lfloor>binary64 (x * 100) + 1 / 2\<rfloor>
        \<and> (truthy oid \<and> is_string oid
             \<and> minAmount \<le> \<lfloor>binary64 (x * 100) + 1 / 2\<rfloor>
             \<and> \<lfloor>binary64 (x * 100) + 1 / 2\<rfloor> \<le> maxAmount \<longrightarrow>
             (\<exists>payload rest.
                snd (initializePayment E \<lparr>body_orderId = oid, body_amount = a, user_id = uid\<rparr>)
                  = HttpPost (baseUrl @ ''/transaction/initialize'') payload (bearer E) # rest
                \<and> js_prop payload ''amount''
                    = Inr (JNum (of_int \<lfloor>binary64 (x * 100) + 1 / 2\<rfloor>)))))"
proof (intro conjI impI allI)
  assume d: "a = None \<or> a = Some 0"
  then show total: "orderTotal a = 10000"
    by (auto simp: orderTotal_def)
  from d show k: "amountInKobo a = 1000000"
    by (auto simp: kobo_samples)
  from d show "initializePayment E \<lparr>body_orderId = oid, body_amount = a, user_id = uid\<rparr>
      = initializePayment E \<lparr>body_orderId = oid, body_amount = Some 10000, user_id = uid\<rparr>"
    by (auto simp: initializePayment_def amountInKobo_def orderTotal_def)
  assume "truthy oid \<and> is_string oid"
  then show "\<exists>payload rest.
      snd (initializePayment E \<lparr>body_orderId = oid, body_amount = a, user_id = uid\<rparr>)
        = HttpPost (baseUrl @ ''/transaction/initialize'') payload (bearer E) # rest
      \<and> js_prop payload ''amount'' = Inr (JNum 1000000)"
    using initializePayment_call [of oid a E uid] k by (simp add: minAmount_def maxAmount_def)
next
  fix x assume x: "a = Some x" "x \<noteq> 0"
  then show k: "amountInKobo a = \<lfloor>binary64 (x * 100) + 1 / 2\<rfloor>"
    by (simp add: amountInKobo_def orderTotal_def math_round_def)
  assume "truthy oid \<and> is_string oid
             \<and> minAmount \<le> \<lfloor>binary64 (x * 100) + 1 / 2\<rfloor>
             \<and> \<lfloor>binary64 (x * 100) + 1 / 2\<rfloor> \<le> maxAmount"
  then show "\<exists>payload rest.
                snd (initializePayment E \<lparr>body_orderId = oid, body_amount = a, user_id = uid\<rparr>)
                  = HttpPost (baseUrl @ ''/transaction/initialize'') payload (bearer E) # rest
                \<and> js_prop payload ''amount''
                    = Inr (JNum (of_int \<lfloor>binary64 (x * 100) + 1 / 2\<rfloor>))"
    using initializePayment_call [of oid a E uid] k by simp
qed

lemma kobo_128_015: "\<lfloor>binary64 (amount_128_015 * 100) + 1 / 2\<rfloor> = 12801"
  by code_simp

lemma amount_128_015_nonzero: "amount_128_015 \<noteq> 0"
  by code_simp

theorem initialize_default_amount_witness:
  "initializePayment sample_env (sample_order None)
     = initializePayment sample_env (sample_order (Some 10000))
   \<and> (\<exists>payload rest. snd (initializePayment sample_env (sample_order None))
          = HttpPost (baseUrl @ ''/transaction/initialize'') payload (bearer sample_env) # rest
        \<and> js_prop payload ''amount'' = Inr (JNum 1000000))
   \<and> amount_128_015 \<noteq> 0
   \<and> minAmount \<le> \<lfloor>binary64 (amount_128_015 * 100) + 1 / 2\<rfloor>
   \<and> \<lfloor>binary64 (amount_128_015 * 100) + 1 / 2\<rfloor> \<le> maxAmount
   \<and> (\<exists>payload rest. snd (initializePayment sample_env (sample_order (Some amount_128_015)))
          = HttpPost (baseUrl @ ''/transaction/initialize'') payload (bearer sample_env) # rest
        \<and> js_prop payload ''amount'' = Inr (JNum 12801))"
proof -
  have oid: "truthy (JStr ''507f1f77bcf86cd799439011'')" "is_string (JStr ''507f1f77bcf86cd799439011'')"
    by simp_all
  note default = initialize_default_amount
    [of None sample_env "JStr ''507f1f77bcf86cd799439011''" "JStr ''u1''"]
  note supplied = initialize_default_amount
    [of "Some amount_128_015" sample_env "JStr ''507f1f77bcf86cd799439011''" "JStr ''u1''"]
  have range: "minAmount \<le> \<lfloor>binary64 (amount_128_015 * 100) + 1 / 2\<rfloor>"
    "\<lfloor>binary64 (amount_128_015 * 100) + 1 / 2\<rfloor> \<le> maxAmount"
    by (simp_all add: kobo_128_015 minAmount_def maxAmount_def)
  from default oid have d: "initializePayment sample_env (sample_order None)
     = initializePayment sample_env (sample_order (Some 10000))"
    "\<exists>payload rest. snd (initializePayment sample_env (sample_order None))
          = HttpPost (baseUrl @ ''/transaction/initialize'') payload (bearer sample_env) # rest
        \<and> js_prop payload ''amount'' = Inr (JNum 1000000)"
    unfolding sample_order_def by blast+
  from supplied oid range amount_128_015_nonzero
  have s: "\<exists>payload rest. snd (initializePayment sample_env (sample_order (Some amount_128_015)))
          = HttpPost (baseUrl @ ''/transaction/initialize'') payload (bearer sample_env) # rest
        \<and> js_prop payload ''amount''
            = Inr (JNum (of_int \<lfloor>binary64 (amount_128_015 * 100) + 1 / 2\<rfloor>))"
    unfolding sample_order_def by blast
  show ?thesis
    using d s range amount_128_015_nonzero by (simp add: kobo_128_015)
qed

subsection \<open>Verification\<close>

lemma js_length_Nil [simp]: "js_length [] = 0"
  by (simp add: js_length_def)

lemma js_length_pos: "0 < js_length s \<Longrightarrow> s \<noteq> []"
  by auto

lemma verifyTransaction_Inr:
  "fst (verifyTransaction E reference) = Inr v \<Longrightarrow>
     truthy reference \<and> is_string reference \<and> 5 \<le> str_length reference"
  by (auto simp: verifyTransaction_def fst_try_catch fst_seq split: if_splits)

lemma verifyTransaction_effects: "list_all is_query (snd (verifyTransaction E reference))"
  unfolding verifyTransaction_def
  by (intro list_all_try_catch list_all_seq) (auto intro!: list_all_seq)

lemma verifyPayment_effects: "list_all is_query (snd (verifyPayment E req))"
  unfolding verifyPayment_def Let_def
  by (intro list_all_try_catch list_all_seq) (auto intro!: list_all_seq verifyTransaction_effects)

lemma verifyPayment_after:
  assumes "fst (verifyTransaction E (param_reference req)) = Inr v"
    and "js_prop v ''status'' = Inr s"
  shows "fst (verifyPayment E req) =
     Inr (if s = JStr ''success'' then
            \<lparr>res_status = 200,
             res_body = JObj [(''success'', JBool True),
                   (''message'', JStr ''Payment verified successfully''),
                   (''data'', JObj [(''status'', s),
                                    (''amount'', divide E (field v ''amount'') 100),
                                    (''depositPaid'', JBool True),
                                    (''paidAt'', field v ''paidAt'')])]\<rparr>
          else
            \<lparr>res_status = 400,
             res_body = JObj [(''success'', JBool False),
                     (''message'', JStr ''Payment verification failed''),
                     (''status'', s)]\<rparr>)"
  using assms verifyTransaction_Inr [OF assms(1)]
        js_prop_total [OF assms(2), of "''amount''"] js_prop_total [OF assms(2), of "''paidAt''"]
  by (simp add: verifyPayment_def fst_try_catch fst_seq Let_def)

lemma verifyPayment_200:
  assumes "fst (verifyPayment E req) = Inr r" and "res_status r = 200"
  shows "\<exists>v. fst (verifyTransaction E (param_reference req)) = Inr v
              \<and> js_prop v ''status'' = Inr (JStr ''success'')"
  using assms
  by (auto simp: verifyPayment_def fst_try_catch fst_seq Let_def split: sum.splits if_splits)

text \<open>What the service makes of the gateway's report, and that it returns for no other.\<close>

definition verification_of :: "jsval \<Rightarrow> jsval" where
  "verification_of t =
     JObj [(''success'', JBool True),
           (''status'', field t ''status''),
           (''amount'', field t ''amount''),
           (''email'', field (field t ''customer'') ''email''),
           (''customerId'', field (field t ''customer'') ''customer_code''),
           (''metadata'', js_or (field t ''metadata'') (JObj [])),
           (''paidAt'', field t ''paid_at''),
           (''authorizationCode'', field (field t ''authorization'') ''authorization_code'')]"

lemma present_prop: "present v \<Longrightarrow> js_prop v k = Inr (field v k)"
  by (simp add: present_def js_prop_field)

lemma prop_Inr_present: "js_prop v k = Inr x \<Longrightarrow> present v"
  by (cases v) (auto simp: present_def)

lemma prop_Inr_field: "js_prop v k = Inr x \<Longrightarrow> x = field v k"
  by (simp add: field_def)

lemma verifyTransaction_reported:
  assumes "5 \<le> js_length s" and "gateway_reports E s t"
  shows "fst (verifyTransaction E (JStr s)) = Inr (verification_of t)"
proof -
  have s: "s \<noteq> []" using assms(1) by auto
  from assms(2) obtain reply flag c a where
    reply: "axiosGet E (verify_url E s) = Inr reply" "js_prop reply ''status'' = Inr flag"
      "truthy flag" "js_prop reply ''data'' = Inr t" "present t"
      "js_prop t ''customer'' = Inr c" "present c"
      "js_prop t ''authorization'' = Inr a" "present a"
    by (auto simp: gateway_reports_def split: sum.splits)
  have c: "c = field t ''customer''" and a: "a = field t ''authorization''"
    using reply(6,8) by (simp_all add: field_def)
  show ?thesis
    using assms(1) s reply(1-4) present_prop [OF reply(5)] present_prop [OF reply(7)]
      present_prop [OF reply(9)] reply(6,8)
    unfolding c a
    by (simp add: verifyTransaction_def verify_url_def verification_of_def fst_try_catch fst_seq)
qed

lemma seq_Inr: "fst (seq m f) = Inr y \<Longrightarrow> \<exists>x. fst m = Inr x \<and> fst (f x) = Inr y"
  by (auto simp: fst_seq split: sum.splits)

lemma try_catch_rethrow_Inr:
  "fst (try_catch m (\<lambda>e. seq (logger l msg (d e)) (\<lambda>_. throw e))) = Inr v \<Longrightarrow> fst m = Inr v"
  by (auto simp: fst_try_catch fst_seq split: sum.splits)

lemma get_Inr: "fst (get v k) = Inr x \<Longrightarrow> js_prop v k = Inr x"
  by (simp add: get_def)

lemma fetch_Inr: "fst (fetch E u) = Inr x \<Longrightarrow> axiosGet E u = Inr x"
  by (auto simp: fetch_def split: sum.splits)

lemma verifyTransaction_returns_report:
  assumes "fst (verifyTransaction E reference) = Inr v"
  shows "\<exists>s t. reference = JStr s \<and> 5 \<le> js_length s \<and> gateway_reports E s t
              \<and> v = verification_of t"
proof -
  from verifyTransaction_Inr [OF assms] obtain s where
    s: "reference = JStr s" "5 \<le> js_length s" "s \<noteq> []"
    by (cases reference) auto
  have "\<exists>reply flag t tstatus tamount c email code md paid a acode.
      axiosGet E (verify_url E s) = Inr reply \<and> js_prop reply ''status'' = Inr flag \<and> truthy flag
      \<and> js_prop reply ''data'' = Inr t \<and> js_prop t ''status'' = Inr tstatus
      \<and> js_prop t ''amount'' = Inr tamount \<and> js_prop t ''customer'' = Inr c
      \<and> js_prop c ''email'' = Inr email \<and> js_prop c ''customer_code'' = Inr code
      \<and> js_prop t ''metadata'' = Inr md \<and> js_prop t ''paid_at'' = Inr paid
      \<and> js_prop t ''authorization'' = Inr a \<and> js_prop a ''authorization_code'' = Inr acode
      \<and> v = JObj [(''success'', JBool True),
                       (''status'', tstatus),
                       (''amount'', tamount),
                       (''email'', email),
                       (''customerId'', code),
                       (''metadata'', js_or md (JObj [])),
                       (''paidAt'', paid),
                       (''authorizationCode'', acode)]"
    using try_catch_rethrow_Inr [OF assms [unfolded verifyTransaction_def]] s
    by (simp add: verify_url_def)
       (auto dest!: seq_Inr fetch_Inr get_Inr simp: fst_seq split: if_splits sum.splits)
  then obtain reply flag t tstatus tamount c email code md paid a acode where
    reply: "axiosGet E (verify_url E s) = Inr reply" "js_prop reply ''status'' = Inr flag"
      "truthy flag" "js_prop reply ''data'' = Inr t"
    and t: "js_prop t ''status'' = Inr tstatus"
      "js_prop t ''amount'' = Inr tamount" "js_prop t ''customer'' = Inr c"
      "js_prop c ''email'' = Inr email" "js_prop c ''customer_code'' = Inr code"
      "js_prop t ''metadata'' = Inr md" "js_prop t ''paid_at'' = Inr paid"
      "js_prop t ''authorization'' = Inr a" "js_prop a ''authorization_code'' = Inr acode"
    and v: "v = JObj [(''success'', JBool True),
                       (''status'', tstatus),
                       (''amount'', tamount),
                       (''email'', email),
                       (''customerId'', code),
                       (''metadata'', js_or md (JObj [])),
                       (''paidAt'', paid),
                       (''authorizationCode'', acode)]"
    by blast
  have "gateway_reports E s t"
    using reply t(3,8) prop_Inr_present [OF t(1)] prop_Inr_present [OF t(4)]
      prop_Inr_present [OF t(9)]
    by (simp add: gateway_reports_def)
  moreover have "v = verification_of t"
    using prop_Inr_field [OF t(1)] prop_Inr_field [OF t(2)] prop_Inr_field [OF t(3)]
      prop_Inr_field [OF t(4)] prop_Inr_field [OF t(5)] prop_Inr_field [OF t(6)]
      prop_Inr_field [OF t(7)] prop_Inr_field [OF t(8)] prop_Inr_field [OF t(9)]
    by (simp add: v verification_of_def)
  ultimately show ?thesis using s by blast
qed

lemma sample_gateway_reports:
  "gateway_reports sample_env ''ref_abc123'' transaction_success"
  "gateway_reports sample_env ''ref_pending1'' transaction_abandoned"
  by (simp_all add: gateway_reports_def verify_url_def sample_env_def sample_get_def
      sample_encode_def unreserved_def hex_digit_def baseUrl_def present_def
      transaction_success_def transaction_abandoned_def)

lemma sample_reference_lengths:
  "js_length ''ref_abc123'' = 10" "js_length ''ref_pending1'' = 12" "js_length ''ref_failed1'' = 11"
  "js_length ''a b/?#'' = 6" "js_length ''abc'' = 3" "js_length (naira @ naira) = 2"
  by (simp_all add: js_length_def code_units_def naira_def)

text \<open>
  C6 (as stated, refuted). The reference \<open>a b/?#\<close> holds a space, a slash, a question mark
  and a hash; the route's validator passes it and the service sends it, percent-encoded,
  to the gateway.
\<close>

theorem verify_reference_charset_counterexample:
  "validateVerifyPayment ''a b/?#'' = Next ''a b/?#''
   \<and> filter is_network (snd (verifyRoute sample_env ''a b/?#'' (JStr ''u1'')))
     = [HttpGet ''https://api.paystack.co/transaction/verify/a%20b%2F%3F%23'' ''Bearer sk_test_1'']"
  by (simp add: validateVerifyPayment_def verifyRoute_def verifyPayment_def verifyTransaction_def
      snd_try_catch fst_try_catch snd_seq fst_seq sample_env_def sample_get_def sample_encode_def
      unreserved_def hex_digit_def baseUrl_def bearer_def Let_def sample_reference_lengths)

text \<open>
  C6 (amended). The shape check is on type and length only, the length being the
  string's \<open>length\<close>. A reference that is not a string, is empty or has fewer than 5
  characters makes \<open>verifyTransaction\<close> throw \<open>Invalid transaction reference\<close>, and the
  controller answer 400 or 500, with no call to the gateway; the route's validator
  answers 400 \<open>Validation failed\<close>, naming the field \<open>reference\<close>, for a reference of fewer
  than 5 or more than 255 characters, and passes every other one to the controller.
  There is no check of the characters: every string of at least 5 characters is
  percent-encoded and sent to the gateway.
\<close>

theorem verify_reference_shape:
  "(\<not> (truthy reference \<and> is_string reference \<and> 5 \<le> str_length reference) \<longrightarrow>
       fst (verifyTransaction E reference) = Inl (Error ''Invalid transaction reference'')
       \<and> list_all is_log (snd (verifyTransaction E reference))
       \<and> list_all is_log
            (snd (verifyPayment E \<lparr>param_reference = reference, verify_user_id = u\<rparr>))
       \<and> (\<exists>r. fst (verifyPayment E \<lparr>param_reference = reference, verify_user_id = u\<rparr>) = Inr r
              \<and> (res_status r = 400 \<or> res_status r = 500)))
   \<and> (js_length s < 5 \<or> 255 < js_length s \<longrightarrow>
        (\<exists>m. verifyRoute E s u =
           (Inr \<lparr>res_status = 400,
                 res_body = JObj [(''success'', JBool False),
                                  (''message'', JStr ''Validation failed''),
                                  (''errors'', JArr [JObj [(''field'', JStr ''reference''),
                                                           (''message'', JStr m)]])]\<rparr>, [])))
   \<and> (5 \<le> js_length s \<and> js_length s \<le> 255 \<longrightarrow>
        verifyRoute E s u = verifyPayment E \<lparr>param_reference = JStr s, verify_user_id = u\<rparr>)
   \<and> (5 \<le> js_length s \<longrightarrow>
        (\<exists>rest. snd (verifyTransaction E (JStr s))
           = HttpGet (baseUrl @ ''/transaction/verify/'' @ encodeURIComponent E s) (bearer E)
               # rest))"
proof (intro conjI impI)
  assume bad: "\<not> (truthy reference \<and> is_string reference \<and> 5 \<le> str_length reference)"
  then show "fst (verifyTransaction E reference) = Inl (Error ''Invalid transaction reference'')"
    by (auto simp: verifyTransaction_def fst_try_catch fst_seq)
  from bad show "list_all is_log (snd (verifyTransaction E reference))"
    by (auto simp: verifyTransaction_def snd_try_catch snd_seq)
  from bad show "list_all is_log
       (snd (verifyPayment E \<lparr>param_reference = reference, verify_user_id = u\<rparr>))"
    by (auto simp: verifyPayment_def verifyTransaction_def snd_try_catch fst_try_catch snd_seq
        fst_seq Let_def)
  from bad show "\<exists>r. fst (verifyPayment E \<lparr>param_reference = reference, verify_user_id = u\<rparr>) = Inr r
              \<and> (res_status r = 400 \<or> res_status r = 500)"
    by (auto simp: verifyPayment_def verifyTransaction_def snd_try_catch fst_try_catch snd_seq
        fst_seq Let_def)
next
  assume "js_length s < 5 \<or> 255 < js_length s"
  then show "\<exists>m. verifyRoute E s u =
           (Inr \<lparr>res_status = 400,
                 res_body = JObj [(''success'', JBool False),
                                  (''message'', JStr ''Validation failed''),
                                  (''errors'', JArr [JObj [(''field'', JStr ''reference''),
                                                           (''message'', JStr m)]])]\<rparr>, [])"
    by (auto simp: verifyRoute_def validateVerifyPayment_def validation_failed_def ret_def)
next
  assume "5 \<le> js_length s \<and> js_length s \<le> 255"
  then show "verifyRoute E s u = verifyPayment E \<lparr>param_reference = JStr s, verify_user_id = u\<rparr>"
    by (auto simp: verifyRoute_def validateVerifyPayment_def)
next
  assume "5 \<le> js_length s"
  then show "\<exists>rest. snd (verifyTransaction E (JStr s))
           = HttpGet (baseUrl @ ''/transaction/verify/'' @ encodeURIComponent E s) (bearer E)
               # rest"
    by (auto simp: verifyTransaction_def snd_try_catch snd_seq split: sum.splits)
qed

theorem verify_reference_shape_witness:
  "fst (verifyTransaction sample_env (JStr ''abc'')) = Inl (Error ''Invalid transaction reference'')
   \<and> list_all is_log (snd (verifyTransaction sample_env (JStr ''abc'')))
   \<and> fst (verifyTransaction sample_env (JStr (naira @ naira)))
       = Inl (Error ''Invalid transaction reference'')
   \<and> (\<exists>m. verifyRoute sample_env (naira @ naira) (JStr ''u1'') =
           (Inr \<lparr>res_status = 400,
                 res_body = JObj [(''success'', JBool False),
                                  (''message'', JStr ''Validation failed''),
                                  (''errors'', JArr [JObj [(''field'', JStr ''reference''),
                                                           (''message'', JStr m)]])]\<rparr>, []))
   \<and> verifyRoute sample_env ''a b/?#'' (JStr ''u1'')
       = verifyPayment sample_env \<lparr>param_reference = JStr ''a b/?#'', verify_user_id = JStr ''u1''\<rparr>
   \<and> (\<exists>rest. snd (verifyTransaction sample_env (JStr ''a b/?#''))
           = HttpGet (baseUrl @ ''/transaction/verify/'' @ encodeURIComponent sample_env ''a b/?#'')
               (bearer sample_env) # rest)"
  using verify_reference_shape [of "JStr ''abc''" sample_env "JStr ''u1''" "naira @ naira"]
        verify_reference_shape [of "JStr (naira @ naira)" sample_env "JStr ''u1''" "''a b/?#''"]
  by (simp add: sample_reference_lengths)

text \<open>
  C9 (as stated, refuted). For \<open>ref_failed1\<close> the gateway reports a transaction whose
  status is \<open>failed\<close> and whose \<open>authorization\<close> is \<open>null\<close>; the service throws while
  reading the authorization code and the endpoint answers 500, not 400.
\<close>

theorem verify_failed_without_authorization_counterexample:
  "axiosGet sample_env (verify_url sample_env ''ref_failed1'') =
     Inr (JObj [(''status'', JBool True),
                (''message'', JStr ''Verification successful''),
                (''data'', transaction_failed)])
   \<and> js_prop transaction_failed ''status'' = Inr (JStr ''failed'')
   \<and> fst (verifyPayment sample_env
            \<lparr>param_reference = JStr ''ref_failed1'', verify_user_id = JStr ''u1''\<rparr>) =
       Inr \<lparr>res_status = 500,
            res_body = JObj [(''success'', JBool False),
                             (''message'', JStr ''Payment verification failed''),
                             (''error'', JUndefined)]\<rparr>"
  by (simp add: verifyPayment_def verifyTransaction_def verify_url_def fst_try_catch fst_seq
      sample_env_def sample_get_def sample_encode_def unreserved_def hex_digit_def baseUrl_def
      transaction_failed_def dev_error_def sample_reference_lengths Let_def)

text \<open>
  C9 (amended). When the gateway reports a transaction that carries a customer and an
  authorization object, the verify endpoint answers 400 with \<open>success: false\<close> and the
  gateway's status whenever that status is not \<open>success\<close>, and 200 with status, amount (in
  naira) and paidAt when it is; it answers 200 only when the gateway reports such a
  transaction with the status \<open>success\<close>.
\<close>

theorem verifyPayment_status_codes:
  "(\<forall>t. 5 \<le> js_length s \<longrightarrow> gateway_reports E s t \<longrightarrow>
        fst (verifyPayment E \<lparr>param_reference = JStr s, verify_user_id = u\<rparr>) =
          Inr (if field t ''status'' = JStr ''success'' then
                 \<lparr>res_status = 200,
                  res_body = JObj [(''success'', JBool True),
                        (''message'', JStr ''Payment verified successfully''),
                        (''data'', JObj [(''status'', JStr ''success''),
                                         (''amount'', divide E (field t ''amount'') 100),
                                         (''depositPaid'', JBool True),
                                         (''paidAt'', field t ''paid_at'')])]\<rparr>
               else
                 \<lparr>res_status = 400,
                  res_body = JObj [(''success'', JBool False),
                          (''message'', JStr ''Payment verification failed''),
                          (''status'', field t ''status'')]\<rparr>))
   \<and> (\<forall>r. fst (verifyPayment E req) = Inr r \<longrightarrow> res_status r = 200 \<longrightarrow>
        (\<exists>s' t. param_reference req = JStr s' \<and> 5 \<le> js_length s' \<and> gateway_reports E s' t
                \<and> field t ''status'' = JStr ''success''))"
proof (intro conjI allI impI)
  fix t assume "5 \<le> js_length s" and "gateway_reports E s t"
  then have v: "fst (verifyTransaction E (JStr s)) = Inr (verification_of t)"
    by (rule verifyTransaction_reported)
  have st: "js_prop (verification_of t) ''status'' = Inr (field t ''status'')"
    by (simp add: verification_of_def)
  show "fst (verifyPayment E \<lparr>param_reference = JStr s, verify_user_id = u\<rparr>) =
          Inr (if field t ''status'' = JStr ''success'' then
                 \<lparr>res_status = 200,
                  res_body = JObj [(''success'', JBool True),
                        (''message'', JStr ''Payment verified successfully''),
                        (''data'', JObj [(''status'', JStr ''success''),
                                         (''amount'', divide E (field t ''amount'') 100),
                                         (''depositPaid'', JBool True),
                                         (''paidAt'', field t ''paid_at'')])]\<rparr>
               else
                 \<lparr>res_status = 400,
                  res_body = JObj [(''success'', JBool False),
                          (''message'', JStr ''Payment verification failed''),
                          (''status'', field t ''status'')]\<rparr>)"
    using verifyPayment_after [of E "\<lparr>param_reference = JStr s, verify_user_id = u\<rparr>", OF _ st] v
    by (simp add: verification_of_def field_def)
next
  fix r assume "fst (verifyPayment E req) = Inr r" and "res_status r = 200"
  then obtain v where v: "fst (verifyTransaction E (param_reference req)) = Inr v"
    "js_prop v ''status'' = Inr (JStr ''success'')"
    using verifyPayment_200 by blast
  from verifyTransaction_returns_report [OF v(1)] obtain s' t where
    "param_reference req = JStr s'" "5 \<le> js_length s'" "gateway_reports E s' t"
    "v = verification_of t"
    by blast
  with v(2) show "\<exists>s' t. param_reference req = JStr s' \<and> 5 \<le> js_length s'
        \<and> gateway_reports E s' t \<and> field t ''status'' = JStr ''success''"
    by (auto simp: verification_of_def)
qed

theorem verifyPayment_status_codes_witness:
  "5 \<le> js_length ''ref_pending1''
   \<and> gateway_reports sample_env ''ref_pending1'' transaction_abandoned
   \<and> fst (verifyPayment sample_env
            \<lparr>param_reference = JStr ''ref_pending1'', verify_user_id = JStr ''u1''\<rparr>) =
       Inr \<lparr>res_status = 400,
            res_body = JObj [(''success'', JBool False),
                     (''message'', JStr ''Payment verification failed''),
                     (''status'', JStr ''abandoned'')]\<rparr>
   \<and> gateway_reports sample_env ''ref_abc123'' transaction_success
   \<and> fst (verifyPayment sample_env
            \<lparr>param_reference = JStr ''ref_abc123'', verify_user_id = JStr ''u1''\<rparr>) =
       Inr \<lparr>res_status = 200,
            res_body = JObj [(''success'', JBool True),
                  (''message'', JStr ''Payment verified successfully''),
                  (''data'', JObj [(''status'', JStr ''success''),
                                   (''amount'', JNum 15000),
                                   (''depositPaid'', JBool True),
                                   (''paidAt'', JStr ''2025-12-18T10:30:00.000Z'')])]\<rparr>"
  using verifyPayment_status_codes [of "''ref_pending1''" sample_env "JStr ''u1''"]
        verifyPayment_status_codes [of "''ref_abc123''" sample_env "JStr ''u1''"]
        sample_gateway_reports
  by (simp add: sample_reference_lengths field_def transaction_abandoned_def
      transaction_success_def sample_env_def)

lemma serveEach_effects:
  "(\<And>E r. list_all P (snd (h E r))) \<Longrightarrow> list_all P (snd (serveEach h rs))"
  by (induction rs) (auto split: prod.splits, metis snd_conv)

lemma serveEach_same:
  "\<forall>E\<in>set Es. fst (h E r) = a \<Longrightarrow>
     fst (serveEach h (map (\<lambda>E. (E, r)) Es)) = replicate (length Es) a"
  by (induction Es) (auto split: prod.splits)

text \<open>
  C7 (as stated, refuted). The reference \<open>ref_abc123\<close> is completed and a first verify
  call is answered 200; a second call for it, made while the gateway does not answer,
  gets 500: the endpoint keeps no record of the completion and its answer follows the
  gateway's at each call.
\<close>

theorem verify_answers_differ_counterexample:
  "map (map_sum id res_status)
     (fst (serveEach verifyPayment
        [(sample_env, \<lparr>param_reference = JStr ''ref_abc123'', verify_user_id = JStr ''u1''\<rparr>),
         (sample_env_down, \<lparr>param_reference = JStr ''ref_abc123'', verify_user_id = JStr ''u1''\<rparr>)]))
   = [Inr 200, Inr 500]"
  by (simp add: verifyPayment_def verifyTransaction_def fst_try_catch fst_seq split_beta
      sample_env_down_def gateway_timeout_def
      sample_env_def sample_get_def sample_encode_def unreserved_def hex_digit_def baseUrl_def
      transaction_success_def sample_reference_lengths Let_def)

text \<open>
  C7 (amended). For a completed reference, the verify calls during which the gateway
  again reports the same successful transaction all get the same answer, with the same
  status, amount and paidAt, whatever else has changed between them; and no verify call
  writes anything: all that any of them does is log and query the gateway.
\<close>

theorem verifyPayment_idempotent:
  assumes "5 \<le> js_length s"
    and "field t ''status'' = JStr ''success''"
    and "\<forall>E\<in>set Es. gateway_reports E s t \<and> divide E (field t ''amount'') 100 = amount"
  shows "fst (serveEach verifyPayment
            (map (\<lambda>E. (E, \<lparr>param_reference = JStr s, verify_user_id = u\<rparr>)) Es)) =
           replicate (length Es) (Inr \<lparr>res_status = 200,
             res_body = JObj [(''success'', JBool True),
                   (''message'', JStr ''Payment verified successfully''),
                   (''data'', JObj [(''status'', JStr ''success''),
                                    (''amount'', amount),
                                    (''depositPaid'', JBool True),
                                    (''paidAt'', field t ''paid_at'')])]\<rparr>)
         \<and> list_all is_query (snd (serveEach verifyPayment rs))"
proof
  have "\<forall>E\<in>set Es. fst (verifyPayment E \<lparr>param_reference = JStr s, verify_user_id = u\<rparr>) =
      Inr \<lparr>res_status = 200,
             res_body = JObj [(''success'', JBool True),
                   (''message'', JStr ''Payment verified successfully''),
                   (''data'', JObj [(''status'', JStr ''success''),
                                    (''amount'', amount),
                                    (''depositPaid'', JBool True),
                                    (''paidAt'', field t ''paid_at'')])]\<rparr>"
  proof
    fix E assume "E \<in> set Es"
    with assms(3) have g: "gateway_reports E s t" and a: "divide E (field t ''amount'') 100 = amount"
      by auto
    have v: "fst (verifyTransaction E (JStr s)) = Inr (verification_of t)"
      using assms(1) g by (rule verifyTransaction_reported)
    have st: "js_prop (verification_of t) ''status'' = Inr (JStr ''success'')"
      using assms(2) by (simp add: verification_of_def)
    show "fst (verifyPayment E \<lparr>param_reference = JStr s, verify_user_id = u\<rparr>) =
      Inr \<lparr>res_status = 200,
             res_body = JObj [(''success'', JBool True),
                   (''message'', JStr ''Payment verified successfully''),
                   (''data'', JObj [(''status'', JStr ''success''),
                                    (''amount'', amount),
                                    (''depositPaid'', JBool True),
                                    (''paidAt'', field t ''paid_at'')])]\<rparr>"
      using verifyPayment_after [of E "\<lparr>param_reference = JStr s, verify_user_id = u\<rparr>", OF _ st] v a
      by (simp add: verification_of_def field_def)
  qed
  then show "fst (serveEach verifyPayment
            (map (\<lambda>E. (E, \<lparr>param_reference = JStr s, verify_user_id = u\<rparr>)) Es)) =
           replicate (length Es) (Inr \<lparr>res_status = 200,
             res_body = JObj [(''success'', JBool True),
                   (''message'', JStr ''Payment verified successfully''),
                   (''data'', JObj [(''status'', JStr ''success''),
                                    (''amount'', amount),
                                    (''depositPaid'', JBool True),
                                    (''paidAt'', field t ''paid_at'')])]\<rparr>)"
    by (rule serveEach_same)
  show "list_all is_query (snd (serveEach verifyPayment rs))"
    by (rule serveEach_effects) (rule verifyPayment_effects)
qed

theorem verifyPayment_idempotent_witness:
  "5 \<le> js_length ''ref_abc123''
   \<and> field transaction_success ''status'' = JStr ''success''
   \<and> gateway_reports sample_env ''ref_abc123'' transaction_success
   \<and> gateway_reports (sample_env\<lparr>development := True\<rparr>) ''ref_abc123'' transaction_success
   \<and> divide sample_env (field transaction_success ''amount'') 100 = JNum 15000
   \<and> fst (serveEach verifyPayment
        (map (\<lambda>E. (E, \<lparr>param_reference = JStr ''ref_abc123'', verify_user_id = JStr ''u1''\<rparr>))
           [sample_env, sample_env\<lparr>development := True\<rparr>, sample_env])) =
           replicate (Suc (Suc (Suc 0))) (Inr \<lparr>res_status = 200,
             res_body = JObj [(''success'', JBool True),
                   (''message'', JStr ''Payment verified successfully''),
                   (''data'', JObj [(''status'', JStr ''success''),
                                    (''amount'', JNum 15000),
                                    (''depositPaid'', JBool True),
                                    (''paidAt'', JStr ''2025-12-18T10:30:00.000Z'')])]\<rparr>)"
proof -
  have len: "5 \<le> js_length ''ref_abc123''"
    by (simp add: sample_reference_lengths)
  have st: "field transaction_success ''status'' = JStr ''success''"
    by (simp add: field_def transaction_success_def)
  have g: "\<forall>E\<in>set [sample_env, sample_env\<lparr>development := True\<rparr>, sample_env].
         gateway_reports E ''ref_abc123'' transaction_success
         \<and> divide E (field transaction_success ''amount'') 100 = JNum 15000"
    using sample_gateway_reports(1)
    by (simp add: gateway_reports_def verify_url_def field_def transaction_success_def
        sample_env_def)
  have paid: "field transaction_success ''paid_at'' = JStr ''2025-12-18T10:30:00.000Z''"
    by (simp add: field_def transaction_success_def)
  show ?thesis
    using verifyPayment_idempotent [OF len st g, of "JStr ''u1''" "[]"] len st g
    by (simp add: paid del: serveEach.simps)
qed

subsection \<open>Webhook events and the Order\<close>

lemma webhook_handlers_log:
  "list_all is_log (snd (handleChargeSuccess ev))"
  "list_all is_log (snd (handleChargeFailed ev))"
  "list_all is_log (snd (handleTransferSuccess ev))"
  "list_all is_log (snd (handleTransferFailed ev))"
  unfolding handleChargeSuccess_def handleChargeFailed_def handleTransferSuccess_def
    handleTransferFailed_def
  by (auto intro!: list_all_try_catch list_all_seq)

lemma dispatch_log: "list_all is_log (snd (dispatch kind ev))"
  by (simp add: dispatch_def webhook_handlers_log)

lemma parseWebhookEvent_log: "list_all is_log (snd (parseWebhookEvent ev))"
  unfolding parseWebhookEvent_def
  by (auto intro!: list_all_seq)

lemma handleWebhook_log: "list_all is_log (snd (handleWebhook E req))"
  unfolding handleWebhook_def Let_def
  by (intro list_all_try_catch list_all_seq)
     (auto intro!: list_all_seq dispatch_log verifyWebhookSignature_log parseWebhookEvent_log
           simp: header_value_def split: option.splits)

lemma webhookHandlers_log: "list_all is_log (snd (webhookHandlers E req))"
  using handleWebhook_log [of E req]
  by (auto simp: webhookHandlers_def verifyWebhookSignatureMiddleware_def
      split: prod.splits step.splits if_splits)

lemma webhookRoute_log: "list_all is_log (snd (webhookRoute E d))"
proof (cases "captureRawBody E d")
  case (Pair a w)
  then have w: "list_all is_log w"
    by (auto simp: captureRawBody_def Let_def split: if_splits sum.splits stream_state.splits)
  show ?thesis
  proof (cases a)
    case None
    with Pair w show ?thesis by (simp add: webhookRoute_def)
  next
    case (Some st)
    show ?thesis
    proof (cases st)
      case (Next req)
      with Some Pair w webhookHandlers_log [of E req] show ?thesis
        by (cases "webhookHandlers E req") (simp add: webhookRoute_def)
    next
      case (Answer r)
      with Some Pair w show ?thesis by (simp add: webhookRoute_def)
    qed
  qed
qed

lemma charge_success_processed:
  assumes "signature_header req = Some (hmacSha512Hex E (secretKey E) raw)"
    and "hmacSha512Hex E (secretKey E) raw \<noteq> []"
    and "rawBody req = JStr raw" and "raw \<noteq> []"
    and "js_prop (parsed_body req) ''event'' = Inr (JStr ''charge.success'')"
    and "js_prop (parsed_body req) ''data'' = Inr dta"
    and "dta \<noteq> JUndefined" and "dta \<noteq> JNull"
  shows "webhookHandlers E req =
     (Inr \<lparr>res_status = 200,
           res_body = JObj [(''success'', JBool True), (''message'', JStr ''Webhook processed'')]\<rparr>,
      [Log Info ''Valid webhook received''
         (JObj [(''event'', JStr ''charge.success''), (''reference'', field dta ''reference'')]),
       Log Info ''Processing successful charge''
         (JObj [(''reference'', field dta ''reference''), (''amount'', field dta ''amount'')])])"
proof -
  have v: "truthy (parsed_body req)" using assms(5) by (cases "parsed_body req") auto
  have sig: "verifyWebhookSignature E (JStr (hmacSha512Hex E (secretKey E) raw)) (JStr raw)
       = (Inr True, [])"
    using assms(2,4)
    by (simp add: verifyWebhookSignature_def try_catch_def seq_def ret_def Let_def)
  have parse: "parseWebhookEvent (parsed_body req) =
     (Inr (JObj [(''event'', JStr ''charge.success''),
                     (''data'', dta),
                     (''reference'', field dta ''reference''),
                     (''status'', field dta ''status''),
                     (''amount'', field dta ''amount''),
                     (''customer'', field dta ''customer''),
                     (''metadata'', js_or (field dta ''metadata'') (JObj []))]), [])"
    using v assms(5,6) js_prop_field [OF assms(7,8)]
    by (simp add: parseWebhookEvent_def seq_def get_def ret_def)
  show ?thesis
    using assms(1-4) js_prop_field [OF assms(7,8)]
    by (simp add: webhookHandlers_def verifyWebhookSignatureMiddleware_def
        handleWebhook_def header_value_def signedText_def js_or_def sig parse Let_def
        dispatch_def handleChargeSuccess_def
        try_catch_def seq_def get_def ret_def logger_def respond_def)
qed

text \<open>
  C8. No webhook event changes an Order, in a terminal state or not: whatever deliveries
  the webhook route serves, in whatever order, all it does is write log entries (the
  handlers read and write no Order: the update is a comment in the source). In
  particular a signed \<open>charge.success\<close> event, stale or not, is logged twice and answered
  200, and that is all.
\<close>

theorem webhook_events_only_logged:
  "list_all is_log (snd (serve (webhookRoute E) ds))
   \<and> (\<forall>raw dta.
         signature_header req = Some (hmacSha512Hex E (secretKey E) raw)
         \<longrightarrow> hmacSha512Hex E (secretKey E) raw \<noteq> []
         \<longrightarrow> rawBody req = JStr raw \<longrightarrow> raw \<noteq> []
         \<longrightarrow> js_prop (parsed_body req) ''event'' = Inr (JStr ''charge.success'')
         \<longrightarrow> js_prop (parsed_body req) ''data'' = Inr dta
         \<longrightarrow> dta \<noteq> JUndefined \<longrightarrow> dta \<noteq> JNull
         \<longrightarrow> webhookHandlers E req =
     (Inr \<lparr>res_status = 200,
           res_body = JObj [(''success'', JBool True), (''message'', JStr ''Webhook processed'')]\<rparr>,
      [Log Info ''Valid webhook received''
         (JObj [(''event'', JStr ''charge.success''), (''reference'', field dta ''reference'')]),
       Log Info ''Processing successful charge''
         (JObj [(''reference'', field dta ''reference''), (''amount'', field dta ''amount'')])]))"
  using serve_effects [of is_log "webhookRoute E" ds, OF webhookRoute_log]
        charge_success_processed [of req E]
  by blast

theorem webhook_events_only_logged_witness:
  "list_all is_log (snd (serve (webhookRoute sample_env)
      [delivery_charge_success, delivery_forged, delivery_unknown_event, delivery_no_data,
       delivery_unsigned, delivery_already_read, delivery_split, delivery_charge_success]))
   \<and> webhookHandlers sample_env (signed_request wire_charge_success event_charge_success) =
     (Inr \<lparr>res_status = 200,
           res_body = JObj [(''success'', JBool True), (''message'', JStr ''Webhook processed'')]\<rparr>,
      [Log Info ''Valid webhook received''
         (JObj [(''event'', JStr ''charge.success''), (''reference'', JStr ''ref_abc123'')]),
       Log Info ''Processing successful charge''
         (JObj [(''reference'', JStr ''ref_abc123''), (''amount'', JNum 1500000)])])"
proof -
  let ?req = "signed_request wire_charge_success event_charge_success"
  have header: "signature_header ?req =
       Some (hmacSha512Hex sample_env (secretKey sample_env) wire_charge_success)"
    and digest: "hmacSha512Hex sample_env (secretKey sample_env) wire_charge_success \<noteq> []"
    and raw: "rawBody ?req = JStr wire_charge_success" "wire_charge_success \<noteq> []"
    by (simp_all add: signed_request_def captured_request_def sample_env_def sample_hmac_def
        wire_charge_success_def)
  have ev: "js_prop (parsed_body ?req) ''event'' = Inr (JStr ''charge.success'')"
    "js_prop (parsed_body ?req) ''data'' =
       Inr (JObj [(''reference'', JStr ''ref_abc123''), (''amount'', JNum 1500000)])"
    by (simp_all add: signed_request_def captured_request_def event_charge_success_def)
  show ?thesis
    using webhook_events_only_logged [of sample_env
        "[delivery_charge_success, delivery_forged, delivery_unknown_event, delivery_no_data,
          delivery_unsigned, delivery_already_read, delivery_split, delivery_charge_success]" ?req]
      header digest raw ev
    by (simp add: field_def del: serve.simps)
qed

end
